theory Spec2Isabelle
  imports Complex_Main "HOL-Library.Word"
begin

section \<open>Go scalar types used by tcping\<close>

text \<open>
  \<^item> \<open>uint\<close> is the 64-bit unsigned integer of the usual build targets; \<open>+\<close> wraps.
  \<^item> \<open>time.Duration\<close> is an \<open>int64\<close> count of nanoseconds. It is modelled as an \<open>int\<close>;
    the places where the source can leave the 64-bit range are written out: \<open>+=\<close> wraps
    (\<open>wrap64\<close>) and \<open>Time.Sub\<close> saturates (\<open>sat64\<close>).
  \<^item> \<open>time.Time\<close> is an instant, modelled as the number of nanoseconds since the zero
    instant \<open>time.Time{}\<close>, which is \<open>0\<close>. Wall clock and monotonic clock are one clock.
\<close>

type_synonym uint = "64 word"
type_synonym Duration = int
type_synonym Time = int

definition minDurationC :: Duration where
  "minDurationC = - (2 ^ 63)"

definition maxDurationC :: Duration where
  "maxDurationC = 2 ^ 63 - 1"

definition wrap64 :: "int \<Rightarrow> Duration" where
  "wrap64 x = (x + 2 ^ 63) mod 2 ^ 64 - 2 ^ 63"

definition sat64 :: "int \<Rightarrow> Duration" where
  "sat64 x = (if x < minDurationC then minDurationC
              else if maxDurationC < x then maxDurationC else x)"

definition zeroTime :: Time where
  "zeroTime = 0"

definition IsZero :: "Time \<Rightarrow> bool" where
  "IsZero t \<longleftrightarrow> t = zeroTime"

text \<open>\<open>t.Sub(u)\<close>: the difference, saturated to the range of \<open>Duration\<close>.\<close>

definition Sub :: "Time \<Rightarrow> Time \<Rightarrow> Duration" where
  "Sub t u = sat64 (t - u)"

definition Add :: "Time \<Rightarrow> Duration \<Rightarrow> Time" where
  "Add t d = t + d"

text \<open>\<open>time.Since(t)\<close> is \<open>time.Now().Sub(t)\<close>; the clock reading is an argument.\<close>

definition Since :: "Time \<Rightarrow> Time \<Rightarrow> Duration" where
  "Since now t = Sub now t"

definition Millisecond :: Duration where
  "Millisecond = 1000000"

section \<open>float32\<close>

text \<open>
  A \<open>float32\<close> is an IEEE 754 binary32 value: a finite value (a rational with a 24-bit
  significand and an exponent between \<open>-126\<close> and \<open>127\<close>), an infinity or a NaN. Every
  arithmetic operation computes the exact result and rounds it to the nearest
  representable value, ties to the even significand. The two zeros are one value; the
  program only ever divides non-negative operands.
\<close>

datatype float32 = Fin rat | PInf | NInf | NaN

text \<open>Round half to even, to an integer.\<close>

definition rhe :: "rat \<Rightarrow> int" where
  "rhe x = (let f = \<lfloor>x\<rfloor>; d = x - of_int f in
            if d < 1 / 2 then f
            else if 1 / 2 < d then f + 1
            else if even f then f else f + 1)"

text \<open>
  The spacing of the binary32 values around \<open>x \<ge> 0\<close>: \<open>2 ^ (e - 23)\<close> for the exponent
  \<open>e\<close> of \<open>x\<close>, which is searched upwards from the subnormal spacing \<open>2 ^ -149\<close>.
\<close>

fun quantum_aux :: "nat \<Rightarrow> rat \<Rightarrow> rat \<Rightarrow> rat" where
  "quantum_aux 0 u x = u"
| "quantum_aux (Suc n) u x = (if 2 ^ 24 * u \<le> x then quantum_aux n (2 * u) x else u)"

definition quantum :: "rat \<Rightarrow> rat" where
  "quantum x = quantum_aux 253 (1 / 2 ^ 149) x"

text \<open>
  The binary32 magnitude nearest to \<open>a \<ge> 0\<close>, and the rounding of a rational: a
  magnitude of \<open>2 ^ 128\<close> or more is out of range and becomes an infinity.
\<close>

definition nearest32 :: "rat \<Rightarrow> rat" where
  "nearest32 a = of_int (rhe (a / quantum a)) * quantum a"

definition round32 :: "rat \<Rightarrow> float32" where
  "round32 x =
     (let m = nearest32 \<bar>x\<bar> in
      if 2 ^ 128 \<le> m then (if 0 < x then PInf else NInf)
      else Fin (if x < 0 then - m else m))"

fun fadd :: "float32 \<Rightarrow> float32 \<Rightarrow> float32" where
  "fadd (Fin a) (Fin b) = round32 (a + b)"
| "fadd NaN _ = NaN"
| "fadd _ NaN = NaN"
| "fadd PInf NInf = NaN"
| "fadd NInf PInf = NaN"
| "fadd PInf _ = PInf"
| "fadd NInf _ = NInf"
| "fadd _ PInf = PInf"
| "fadd _ NInf = NInf"

fun fmul :: "float32 \<Rightarrow> float32 \<Rightarrow> float32" where
  "fmul (Fin a) (Fin b) = round32 (a * b)"
| "fmul NaN _ = NaN"
| "fmul _ NaN = NaN"
| "fmul PInf (Fin b) = (if b = 0 then NaN else if 0 < b then PInf else NInf)"
| "fmul NInf (Fin b) = (if b = 0 then NaN else if 0 < b then NInf else PInf)"
| "fmul (Fin a) PInf = (if a = 0 then NaN else if 0 < a then PInf else NInf)"
| "fmul (Fin a) NInf = (if a = 0 then NaN else if 0 < a then NInf else PInf)"
| "fmul PInf PInf = PInf"
| "fmul NInf NInf = PInf"
| "fmul PInf NInf = NInf"
| "fmul NInf PInf = NInf"

fun fdiv :: "float32 \<Rightarrow> float32 \<Rightarrow> float32" where
  "fdiv (Fin a) (Fin b) =
     (if b = 0 then (if a = 0 then NaN else if 0 < a then PInf else NInf)
      else round32 (a / b))"
| "fdiv NaN _ = NaN"
| "fdiv _ NaN = NaN"
| "fdiv (Fin a) PInf = Fin 0"
| "fdiv (Fin a) NInf = Fin 0"
| "fdiv PInf (Fin b) = (if 0 \<le> b then PInf else NInf)"
| "fdiv NInf (Fin b) = (if 0 \<le> b then NInf else PInf)"
| "fdiv _ _ = NaN"

text \<open>The comparisons \<open><\<close> and \<open>\<le>\<close>; every comparison with a NaN is false.\<close>

fun flt :: "float32 \<Rightarrow> float32 \<Rightarrow> bool" where
  "flt (Fin a) (Fin b) = (a < b)"
| "flt NaN _ = False"
| "flt _ NaN = False"
| "flt NInf NInf = False"
| "flt NInf _ = True"
| "flt PInf _ = False"
| "flt _ PInf = True"
| "flt _ NInf = False"


definition IsNaN :: "float32 \<Rightarrow> bool" where
  "IsNaN x \<longleftrightarrow> x = NaN"

text \<open>The conversions \<open>float32(n)\<close> of an \<open>int64\<close>, an \<open>int\<close> and a \<open>uint\<close>.\<close>

definition float32_of_int :: "int \<Rightarrow> float32" where
  "float32_of_int n = round32 (of_int n)"

definition float32_of_uint :: "uint \<Rightarrow> float32" where
  "float32_of_uint n = round32 (of_nat (unat n))"

section \<open>Addresses\<close>

text \<open>
  A \<open>netip.Addr\<close> is the zero (invalid) address, an IPv4 address or an IPv6 address
  (zones are left out). An IPv4-mapped IPv6 address is \<open>::ffff:a.b.c.d\<close>.
\<close>

datatype Addr = ZeroAddr | IPv4 "32 word" | IPv6 "128 word"

fun Is4 :: "Addr \<Rightarrow> bool" where
  "Is4 (IPv4 _) = True"
| "Is4 _ = False"

fun Is6 :: "Addr \<Rightarrow> bool" where
  "Is6 (IPv6 _) = True"
| "Is6 _ = False"

fun Is4In6 :: "Addr \<Rightarrow> bool" where
  "Is4In6 (IPv6 w) = (drop_bit 32 w = 0xFFFF)"
| "Is4In6 _ = False"

fun Unmap :: "Addr \<Rightarrow> Addr" where
  "Unmap (IPv6 w) = (if drop_bit 32 w = 0xFFFF then IPv4 (ucast w) else IPv6 w)"
| "Unmap a = a"

section \<open>The data model\<close>

text \<open>
  The structs of the program, field by field. Five fields carry another name here,
  theirs being taken: \<open>end\<close> of \<open>longestTime\<close> is \<open>endTime_of\<close>, \<open>min\<close> and
  \<open>max\<close> of \<open>rttResult\<close> are \<open>rtt_min\<close> and \<open>rtt_max\<close>, \<open>Addr\<close> and \<open>When\<close>
  of \<open>hostnameChange\<close> are \<open>change_Addr\<close> and \<open>change_When\<close>. The
  \<open>networkInterface\<close> of \<open>userInput\<close> only configures the dialler, whose result is
  an argument of \<open>tcpProbe\<close>.
\<close>

record longestTime =
  start :: Time
  endTime_of :: Time
  duration :: Duration

record rttResult =
  rtt_min :: float32
  rtt_max :: float32
  average :: float32
  hasResults :: bool

record hostnameChange =
  change_Addr :: Addr
  change_When :: Time

record userInput =
  ip :: Addr
  hostname :: string
  retryHostnameLookupAfter :: uint
  probesBeforeQuit :: uint
  timeout :: Duration
  intervalBetweenProbes :: Duration
  port :: "16 word"
  useIPv4 :: bool
  useIPv6 :: bool
  shouldRetryResolve :: bool
  showFailuresOnly :: bool
  showSourceAddress :: bool

text \<open>
  The \<open>tcping\<close> struct. Its embedded printer and its ticker hold no statistics: what
  the printer is asked to print is returned by each operation as a list of events.
\<close>

record tcping =
  startTime :: Time
  endTime :: Time
  startOfUptime :: Time
  startOfDowntime :: Time
  lastSuccessfulProbe :: Time
  lastUnsuccessfulProbe :: Time
  longestUptime :: longestTime
  longestDowntime :: longestTime
  rtt :: "float32 list"
  hostnameChanges :: "hostnameChange list"
  userInput :: userInput
  ongoingSuccessfulProbes :: uint
  ongoingUnsuccessfulProbes :: uint
  totalDowntime :: Duration
  totalUptime :: Duration
  totalSuccessfulProbes :: uint
  totalUnsuccessfulProbes :: uint
  retriedHostnameLookups :: uint
  rttResults :: rttResult
  destWasDown :: bool
  destIsIP :: bool

text \<open>
  The calls of the \<open>printer\<close> interface, with their arguments. The three error
  messages of the resolver are told apart by their kind; each carries the hostname.
\<close>

datatype errorMessage = CannotResolve string | NoIPv4Address string | NoIPv6Address string

datatype event =
    PrintProbeSuccess string userInput uint float32
  | PrintProbeFail userInput uint
  | PrintRetryingToResolve string
  | PrintTotalDownTime Duration
  | PrintStatistics tcping
  | PrintError errorMessage

text \<open>The zero value of the struct, as \<open>main\<close> allocates it.\<close>

definition zeroLongestTime :: longestTime where
  "zeroLongestTime = \<lparr>start = zeroTime, endTime_of = zeroTime, duration = 0\<rparr>"

definition zeroRttResult :: rttResult where
  "zeroRttResult = \<lparr>rtt_min = Fin 0, rtt_max = Fin 0, average = Fin 0, hasResults = False\<rparr>"

definition zeroUserInput :: userInput where
  "zeroUserInput = \<lparr>ip = ZeroAddr, hostname = [], retryHostnameLookupAfter = 0,
     probesBeforeQuit = 0, timeout = 0, intervalBetweenProbes = 0, port = 0,
     useIPv4 = False, useIPv6 = False, shouldRetryResolve = False,
     showFailuresOnly = False, showSourceAddress = False\<rparr>"

definition zeroTcping :: tcping where
  "zeroTcping = \<lparr>startTime = zeroTime, endTime = zeroTime, startOfUptime = zeroTime,
     startOfDowntime = zeroTime, lastSuccessfulProbe = zeroTime,
     lastUnsuccessfulProbe = zeroTime, longestUptime = zeroLongestTime,
     longestDowntime = zeroLongestTime, rtt = [], hostnameChanges = [],
     userInput = zeroUserInput, ongoingSuccessfulProbes = 0,
     ongoingUnsuccessfulProbes = 0, totalDowntime = 0, totalUptime = 0,
     totalSuccessfulProbes = 0, totalUnsuccessfulProbes = 0,
     retriedHostnameLookups = 0, rttResults = zeroRttResult, destWasDown = False,
     destIsIP = False\<rparr>"

section \<open>Longest intervals\<close>

definition newLongestTime :: "Time \<Rightarrow> Duration \<Rightarrow> longestTime" where
  "newLongestTime startT d =
     \<lparr>start = startT, endTime_of = Add startT d, duration = d\<rparr>"

definition calcLongestUptime :: "tcping \<Rightarrow> Duration \<Rightarrow> tcping" where
  "calcLongestUptime t d =
     (if IsZero (startOfUptime t) \<or> d = 0 then t
      else if IsZero (endTime_of (longestUptime t))
        then t\<lparr>longestUptime := newLongestTime (startOfUptime t) d\<rparr>
      else if duration (longestUptime t) \<le> d
        then t\<lparr>longestUptime := newLongestTime (startOfUptime t) d\<rparr>
      else t)"

definition calcLongestDowntime :: "tcping \<Rightarrow> Duration \<Rightarrow> tcping" where
  "calcLongestDowntime t d =
     (if IsZero (startOfDowntime t) \<or> d = 0 then t
      else if IsZero (endTime_of (longestDowntime t))
        then t\<lparr>longestDowntime := newLongestTime (startOfDowntime t) d\<rparr>
      else if duration (longestDowntime t) \<le> d
        then t\<lparr>longestDowntime := newLongestTime (startOfDowntime t) d\<rparr>
      else t)"

section \<open>The probe and the two tracker entry points\<close>

definition nanoToMillisecond :: "int \<Rightarrow> float32" where
  "nanoToMillisecond nano = fdiv (float32_of_int nano) (float32_of_int Millisecond)"

definition maxDuration :: "Duration \<Rightarrow> Duration \<Rightarrow> Duration" where
  "maxDuration x y = (if y < x then x else y)"

definition handleConnError :: "tcping \<Rightarrow> Time \<Rightarrow> Duration \<Rightarrow> tcping \<times> event list" where
  "handleConnError t connTime elapsed =
     (let t1 = (if \<not> destWasDown t
                then (let a = t\<lparr>startOfDowntime := connTime\<rparr>;
                          uptime = Sub (startOfDowntime a) (startOfUptime a);
                          b = calcLongestUptime a uptime
                      in b\<lparr>startOfUptime := zeroTime, destWasDown := True\<rparr>)
                else t);
          t2 = t1\<lparr>totalDowntime := wrap64 (totalDowntime t1 + elapsed),
                   lastUnsuccessfulProbe := connTime,
                   totalUnsuccessfulProbes := totalUnsuccessfulProbes t1 + 1,
                   ongoingUnsuccessfulProbes := ongoingUnsuccessfulProbes t1 + 1\<rparr>
      in (t2, [PrintProbeFail (userInput t2) (ongoingUnsuccessfulProbes t2)]))"

definition handleConnSuccess ::
  "tcping \<Rightarrow> string \<Rightarrow> float32 \<Rightarrow> Time \<Rightarrow> Duration \<Rightarrow> tcping \<times> event list" where
  "handleConnSuccess t sourceAddr r connTime elapsed =
     (let (t1, out1) =
            (if destWasDown t
             then (let a = t\<lparr>startOfUptime := connTime\<rparr>;
                       downtime = Sub (startOfUptime a) (startOfDowntime a);
                       b = calcLongestDowntime a downtime
                   in (b\<lparr>startOfDowntime := zeroTime, destWasDown := False,
                          ongoingUnsuccessfulProbes := 0, ongoingSuccessfulProbes := 0\<rparr>,
                       [PrintTotalDownTime downtime]))
             else (t, []));
          t2 = (if IsZero (startOfUptime t1) then t1\<lparr>startOfUptime := connTime\<rparr> else t1);
          t3 = t2\<lparr>totalUptime := wrap64 (totalUptime t2 + elapsed),
                   lastSuccessfulProbe := connTime,
                   totalSuccessfulProbes := totalSuccessfulProbes t2 + 1,
                   ongoingSuccessfulProbes := ongoingSuccessfulProbes t2 + 1,
                   rtt := rtt t2 @ [r]\<rparr>
      in (t3, out1 @
            (if \<not> showFailuresOnly (userInput t3)
             then [PrintProbeSuccess sourceAddr (userInput t3) (ongoingSuccessfulProbes t3) r]
             else [])))"

text \<open>
  \<open>tcpProbe\<close> reads the clock before and after dialling; the two readings and the
  result of the dial (an error, or a connection with its local address) are arguments.
\<close>

datatype dialResult = DialError | DialOk string

definition tcpProbe :: "tcping \<Rightarrow> Time \<Rightarrow> Time \<Rightarrow> dialResult \<Rightarrow> tcping \<times> event list" where
  "tcpProbe t connStart connEnd res =
     (let connDuration = Sub connEnd connStart;
          r = nanoToMillisecond connDuration;
          elapsed = maxDuration connDuration (intervalBetweenProbes (userInput t))
      in case res of
           DialError \<Rightarrow> handleConnError t connStart elapsed
         | DialOk localAddr \<Rightarrow> handleConnSuccess t localAddr r connStart elapsed)"

section \<open>Hostname resolution\<close>

text \<open>
  What the resolver reads from outside the program is an argument: the parser of
  address literals, the answer of the DNS lookup (\<open>None\<close> is a lookup error) and the
  random number generator. \<open>os.Exit\<close> and an index out of range end the run.
\<close>

record resolver =
  parseAddr :: "string \<Rightarrow> Addr option"
  lookupNetIP :: "string \<Rightarrow> Addr list option"
  randIntn :: "nat \<Rightarrow> nat"

datatype abort = OsExit nat | IndexOutOfRange

text \<open>
  \<open>ipList[index]\<close>, unmapped and sent through \<open>String\<close> and \<open>ParseAddr\<close>, which give the
  unmapped address back.
\<close>

definition pickAddr :: "(nat \<Rightarrow> nat) \<Rightarrow> Addr list \<Rightarrow> abort + Addr" where
  "pickAddr rnd ipList =
     (let index = (if 1 < length ipList then rnd (length ipList) else 0)
      in if index < length ipList then Inr (Unmap (ipList ! index))
         else Inl IndexOutOfRange)"

definition selectResolvedIP ::
  "tcping \<Rightarrow> (nat \<Rightarrow> nat) \<Rightarrow> Addr list \<Rightarrow> (abort + Addr) \<times> event list" where
  "selectResolvedIP t rnd ipAddrs =
     (if useIPv4 (userInput t) then
        (let ipList = concat (map (\<lambda>a. (if Is4 a then [a] else []) @
                                       (if Is4In6 a then [Unmap a] else [])) ipAddrs)
         in if ipList = []
            then (Inl (OsExit 1), [PrintError (NoIPv4Address (hostname (userInput t)))])
            else (pickAddr rnd ipList, []))
      else if useIPv6 (userInput t) then
        (let ipList = filter Is6 ipAddrs
         in if ipList = []
            then (Inl (OsExit 1), [PrintError (NoIPv6Address (hostname (userInput t)))])
            else (pickAddr rnd ipList, []))
      else (pickAddr rnd ipAddrs, []))"

definition resolveHostname :: "resolver \<Rightarrow> tcping \<Rightarrow> (abort + Addr) \<times> event list" where
  "resolveHostname r t =
     (case parseAddr r (hostname (userInput t)) of
        Some a \<Rightarrow> (Inr a, [])
      | None \<Rightarrow>
         (case lookupNetIP r (hostname (userInput t)) of
            None \<Rightarrow>
              (if totalSuccessfulProbes t \<noteq> 0 \<or> totalUnsuccessfulProbes t \<noteq> 0
               then (Inr (ip (userInput t)), [])
               else (Inl (OsExit 1), [PrintError (CannotResolve (hostname (userInput t)))]))
          | Some ipAddrs \<Rightarrow> selectResolvedIP t (randIntn r) ipAddrs))"

text \<open>\<open>retryResolveHostname\<close>; \<open>now\<close> is the clock reading stored with a new address.\<close>

definition retryResolveHostname ::
  "resolver \<Rightarrow> Time \<Rightarrow> tcping \<Rightarrow> (abort + tcping) \<times> event list" where
  "retryResolveHostname r now t =
     (if retryHostnameLookupAfter (userInput t) \<le> ongoingUnsuccessfulProbes t then
        (let out1 = [PrintRetryingToResolve (hostname (userInput t))]
         in case resolveHostname r t of
              (Inl e, out2) \<Rightarrow> (Inl e, out1 @ out2)
            | (Inr a, out2) \<Rightarrow>
                (let t1 = t\<lparr>userInput := (userInput t)\<lparr>ip := a\<rparr>,
                              ongoingUnsuccessfulProbes := 0,
                              retriedHostnameLookups := retriedHostnameLookups t + 1\<rparr>
                 in if hostnameChanges t1 = [] then (Inr t1, out1 @ out2)
                    else if change_Addr (last (hostnameChanges t1)) \<noteq> ip (userInput t1)
                    then (Inr (t1\<lparr>hostnameChanges := hostnameChanges t1 @
                                  [\<lparr>change_Addr = ip (userInput t1), change_When = now\<rparr>]\<rparr>),
                          out1 @ out2)
                    else (Inr t1, out1 @ out2)))
      else (Inr t, []))"

section \<open>Statistics\<close>

text \<open>The loop of \<open>calcMinAvgMaxRttTime\<close> over the samples, on the running sum and result.\<close>

fun rttLoop :: "float32 list \<Rightarrow> float32 \<times> rttResult \<Rightarrow> float32 \<times> rttResult" where
  "rttLoop [] acc = acc"
| "rttLoop (x # xs) (sm, res) =
     (let res1 = (if flt (rtt_max res) x then res\<lparr>rtt_max := x\<rparr> else res);
          res2 = (if flt x (rtt_min res1) then res1\<lparr>rtt_min := x\<rparr> else res1)
      in rttLoop xs (fadd sm x, res2))"

definition calcMinAvgMaxRttTime :: "float32 list \<Rightarrow> rttResult" where
  "calcMinAvgMaxRttTime timeArr =
     (let arrLen = length timeArr;
          result1 = (if 0 < arrLen then zeroRttResult\<lparr>rtt_min := hd timeArr\<rparr>
                     else zeroRttResult);
          (sm, result2) = rttLoop timeArr (Fin 0, result1)
      in if 0 < arrLen
         then result2\<lparr>hasResults := True,
                       average := fdiv sm (float32_of_int (int arrLen))\<rparr>
         else result2)"

text \<open>The packet loss that each \<open>printStatistics\<close> computes from the snapshot.\<close>

definition packetLoss :: "tcping \<Rightarrow> float32" where
  "packetLoss t =
     (let totalPackets = totalSuccessfulProbes t + totalUnsuccessfulProbes t;
          loss = fmul (fdiv (float32_of_uint (totalUnsuccessfulProbes t))
                            (float32_of_uint totalPackets)) (Fin 100)
      in if IsNaN loss then Fin 0 else loss)"

text \<open>\<open>printStats\<close>; \<open>now\<close> is the clock reading of \<open>time.Since\<close>.\<close>

definition printStats :: "Time \<Rightarrow> tcping \<Rightarrow> tcping \<times> event list" where
  "printStats now t =
     (let t1 = (if destWasDown t
                then calcLongestDowntime t (Since now (startOfDowntime t))
                else calcLongestUptime t (Since now (startOfUptime t)));
          t2 = t1\<lparr>rttResults := calcMinAvgMaxRttTime (rtt t1)\<rparr>
      in (t2, [PrintStatistics t2]))"

text \<open>\<open>shutdown\<close> stamps the end time and prints; the process then exits with status 0.\<close>

definition shutdown :: "Time \<Rightarrow> Time \<Rightarrow> tcping \<Rightarrow> tcping \<times> event list" where
  "shutdown now now' t = printStats now' (t\<lparr>endTime := now\<rparr>)"

section \<open>Sessions\<close>

text \<open>A call of one of the two entry points of the tracker, and a sequence of calls.\<close>

datatype trackerCall =
    ConnSuccess string float32 Time Duration
  | ConnError Time Duration

fun track :: "tcping \<Rightarrow> trackerCall \<Rightarrow> tcping" where
  "track t (ConnSuccess sourceAddr r connTime elapsed) =
     fst (handleConnSuccess t sourceAddr r connTime elapsed)"
| "track t (ConnError connTime elapsed) = fst (handleConnError t connTime elapsed)"

text \<open>
  A step of a session that can touch the longest-interval records: a call of the
  tracker or a snapshot (\<open>printStats\<close>), and the clock reading it is made with.
\<close>

datatype sessionStep = Tracked trackerCall | Snapshot Time

fun step :: "tcping \<Rightarrow> sessionStep \<Rightarrow> tcping" where
  "step t (Tracked c) = track t c"
| "step t (Snapshot now) = fst (printStats now t)"

fun stepTime :: "sessionStep \<Rightarrow> Time" where
  "stepTime (Tracked (ConnSuccess sourceAddr r connTime elapsed)) = connTime"
| "stepTime (Tracked (ConnError connTime elapsed)) = connTime"
| "stepTime (Snapshot now) = now"

text \<open>
  Two facts that hold of the tracker throughout a session: a longest-interval record
  that was never written has duration zero, and the start markers are unset or lie in
  the past of the clock (which does not run backwards, and reads after the zero
  instant).
\<close>

definition recordsUnsetOrWritten :: "tcping \<Rightarrow> bool" where
  "recordsUnsetOrWritten t \<longleftrightarrow>
     (if IsZero (endTime_of (longestUptime t)) then duration (longestUptime t) = 0 else True)
     \<and> (if IsZero (endTime_of (longestDowntime t)) then duration (longestDowntime t) = 0
        else True)"

definition markersBefore :: "tcping \<Rightarrow> Time \<Rightarrow> bool" where
  "markersBefore t now \<longleftrightarrow>
     zeroTime \<le> startOfUptime t \<and> startOfUptime t \<le> now
     \<and> zeroTime \<le> startOfDowntime t \<and> startOfDowntime t \<le> now"

section \<open>Sample states\<close>

text \<open>
  A target that answered two probes, at instants 1000 and 1000001000, and has been down
  since instant 2000001000, for five probes one second apart.
\<close>

definition downFor5 :: tcping where
  "downFor5 = zeroTcping\<lparr>destWasDown := True, startOfDowntime := 2000001000,
     longestUptime := \<lparr>start = 1000, endTime_of = 2000001000, duration = 2000000000\<rparr>,
     rtt := [Fin 3, Fin 3],
     ongoingUnsuccessfulProbes := 5, totalUnsuccessfulProbes := 5,
     ongoingSuccessfulProbes := 2, totalSuccessfulProbes := 2,
     totalUptime := 2000000000, totalDowntime := 5000000000,
     lastSuccessfulProbe := 1000001000, lastUnsuccessfulProbe := 6000001000\<rparr>"

definition callsOfDownFor5 :: "trackerCall list" where
  "callsOfDownFor5 =
     [ConnSuccess ''10.0.0.1:4242'' (Fin 3) 1000 1000000000,
      ConnSuccess ''10.0.0.1:4242'' (Fin 3) 1000001000 1000000000,
      ConnError 2000001000 1000000000, ConnError 3000001000 1000000000,
      ConnError 4000001000 1000000000, ConnError 5000001000 1000000000,
      ConnError 6000001000 1000000000]"

text \<open>
  A session on \<open>example.org\<close> with retry after 3 failures: the name first resolved to
  \<open>192.0.2.1\<close>, three probes have failed since, and the DNS now answers \<open>192.0.2.2\<close>.
\<close>

definition started :: tcping where
  "started = zeroTcping\<lparr>startTime := 500,
     userInput := zeroUserInput\<lparr>ip := IPv4 0xC0000201, hostname := ''example.org'',
       retryHostnameLookupAfter := 3, shouldRetryResolve := True,
       intervalBetweenProbes := 1000000000\<rparr>,
     hostnameChanges := [\<lparr>change_Addr = IPv4 0xC0000201, change_When = 500\<rparr>]\<rparr>"

definition threeFailures :: tcping where
  "threeFailures = started\<lparr>destWasDown := True, startOfDowntime := 1000,
     lastUnsuccessfulProbe := 2000001000, ongoingUnsuccessfulProbes := 3,
     totalUnsuccessfulProbes := 3, totalDowntime := 3000000000\<rparr>"

definition callsOfThreeFailures :: "trackerCall list" where
  "callsOfThreeFailures =
     [ConnError 1000 1000000000, ConnError 1000001000 1000000000,
      ConnError 2000001000 1000000000]"

definition dnsMoved :: resolver where
  "dnsMoved = \<lparr>parseAddr = (\<lambda>h. None), lookupNetIP = (\<lambda>h. Some [IPv4 0xC0000202]),
     randIntn = (\<lambda>n. 0)\<rparr>"

definition dnsDown :: resolver where
  "dnsDown = \<lparr>parseAddr = (\<lambda>h. None), lookupNetIP = (\<lambda>h. None), randIntn = (\<lambda>n. 0)\<rparr>"

text \<open>A target that has been up since instant 1000, after three successful probes.\<close>

definition upFor3 :: tcping where
  "upFor3 = zeroTcping\<lparr>startOfUptime := 1000, lastSuccessfulProbe := 2000001000,
     rtt := [Fin 10, Fin 20, Fin 30], ongoingSuccessfulProbes := 3,
     totalSuccessfulProbes := 3, totalUptime := 3000000000\<rparr>"

definition callsOfUpFor3 :: "trackerCall list" where
  "callsOfUpFor3 =
     [ConnSuccess ''10.0.0.1:4242'' (Fin 10) 1000 1000000000,
      ConnSuccess ''10.0.0.1:4242'' (Fin 20) 1000001000 1000000000,
      ConnSuccess ''10.0.0.1:4242'' (Fin 30) 2000001000 1000000000]"

text \<open>
  Scenario E: up at 1000, down at 3000, up again at 4000, down again at 6000: two
  uptime intervals of 2000 ns each.
\<close>

definition firstUptime :: "sessionStep list" where
  "firstUptime = [Tracked (ConnSuccess ''s'' (Fin 1) 1000 1000),
                  Tracked (ConnError 3000 1000)]"

definition secondUptime :: "sessionStep list" where
  "secondUptime = [Tracked (ConnSuccess ''s'' (Fin 1) 4000 1000),
                   Tracked (ConnError 6000 1000)]"

section \<open>Rounding to float32\<close>

text \<open>
  Rounding to the nearest binary32 magnitude is monotone, and it keeps the values that
  are binary32 values already; these two facts bound every float32 result below.
\<close>

lemma quantum_aux_numeral:
  "quantum_aux (numeral k) u x =
     (if 2 ^ 24 * u \<le> x then quantum_aux (pred_numeral k) (2 * u) x else u)"
  by (simp add: numeral_eq_Suc)

lemma rhe_of_int: "rhe (of_int n) = n"
  by (simp add: rhe_def)

lemma rhe_bounds: "of_int (rhe x) - 1 / 2 \<le> x \<and> x \<le> of_int (rhe x) + 1 / 2"
  by (auto simp: rhe_def Let_def; linarith)

lemma rhe_mono:
  assumes "x \<le> y"
  shows "rhe x \<le> rhe y"
proof (rule ccontr)
  assume "\<not> rhe x \<le> rhe y"
  then have "rhe y + 1 \<le> rhe x"
    by simp
  then have "(of_int (rhe y) :: rat) + 1 \<le> of_int (rhe x)"
    by (metis of_int_1 of_int_add of_int_le_iff)
  with rhe_bounds [of x] rhe_bounds [of y] assms have "x = y"
    by linarith
  with \<open>\<not> rhe x \<le> rhe y\<close> show False
    by simp
qed

lemma quantum_aux_shape:
  assumes "0 < u"
  shows "\<exists>k\<le>n. quantum_aux n u x = 2 ^ k * u
           \<and> (k < n \<longrightarrow> x < 2 ^ 24 * (2 ^ k * u))
           \<and> (0 < k \<longrightarrow> 2 ^ 23 * (2 ^ k * u) \<le> x)"
  using assms
proof (induction n arbitrary: u)
  case 0
  then show ?case by simp
next
  case (Suc n)
  show ?case
  proof (cases "2 ^ 24 * u \<le> x")
    case False
    then show ?thesis
      by (intro exI [of _ 0]) simp
  next
    case True
    from Suc.prems have "0 < 2 * u" by simp
    from Suc.IH [OF this] obtain k where k: "k \<le> n" "quantum_aux n (2 * u) x = 2 ^ k * (2 * u)"
      "k < n \<longrightarrow> x < 2 ^ 24 * (2 ^ k * (2 * u))"
      "0 < k \<longrightarrow> 2 ^ 23 * (2 ^ k * (2 * u)) \<le> x"
      by blast
    have "2 ^ 23 * (2 ^ Suc k * u) \<le> x"
    proof (cases "0 < k")
      case True with k(4) show ?thesis by (simp add: mult_ac)
    next
      case False
      then have "k = 0" by simp
      with \<open>2 ^ 24 * u \<le> x\<close> show ?thesis by simp
    qed
    with k True show ?thesis
      by (intro exI [of _ "Suc k"]) (simp add: mult_ac)
  qed
qed


lemma quantum_shape:
  "\<exists>k\<le>253. quantum x = 2 ^ k * (1 / 2 ^ 149)
           \<and> (k < 253 \<longrightarrow> x < 2 ^ 24 * quantum x)
           \<and> (0 < k \<longrightarrow> 2 ^ 23 * quantum x \<le> x)"
proof -
  have "(0::rat) < 1 / 2 ^ 149" by simp
  from quantum_aux_shape [OF this, of 253 x] show ?thesis
    unfolding quantum_def by metis
qed

lemma quantum_pos: "0 < quantum x"
proof -
  from quantum_shape [of x] obtain k where k: "quantum x = 2 ^ k * (1 / 2 ^ 149)"
    by (elim exE conjE) (rule that, assumption)
  have "(0::rat) < 2 ^ k * (1 / 2 ^ 149)" by simp
  with k show ?thesis by (simp only:)
qed

lemma nearest32_mono:
  assumes "x \<le> y"
  shows "nearest32 x \<le> nearest32 y"
proof -
  let ?u = "1 / 2 ^ 149 :: rat"
  from quantum_shape [of x] obtain kx where kx: "kx \<le> 253" "quantum x = 2 ^ kx * ?u"
    "kx < 253 \<longrightarrow> x < 2 ^ 24 * quantum x" "0 < kx \<longrightarrow> 2 ^ 23 * quantum x \<le> x"
    by (elim exE conjE) (rule that, assumption+)
  from quantum_shape [of y] obtain ky where ky: "ky \<le> 253" "quantum y = 2 ^ ky * ?u"
    "ky < 253 \<longrightarrow> y < 2 ^ 24 * quantum y" "0 < ky \<longrightarrow> 2 ^ 23 * quantum y \<le> y"
    by (elim exE conjE) (rule that, assumption+)
  have double: "2 * quantum a \<le> quantum b"
    if "quantum a = 2 ^ ka * ?u" "quantum b = 2 ^ kb * ?u" "ka < kb" for a b ka kb
  proof -
    from that(3) have "Suc ka \<le> kb" by simp
    then have "(2::rat) ^ Suc ka \<le> 2 ^ kb"
      by (rule power_increasing) simp
    then have "2 ^ Suc ka * ?u \<le> 2 ^ kb * ?u"
      by (rule mult_right_mono) simp
    with that show ?thesis by simp
  qed
  have "kx \<le> ky"
  proof (rule ccontr)
    assume "\<not> kx \<le> ky"
    then have lt: "ky < kx" by simp
    with kx(1) have "ky < 253" by simp
    with ky(3) have 1: "y < 2 ^ 24 * quantum y" by simp
    from lt kx(4) have 2: "2 ^ 23 * quantum x \<le> x" by simp
    from double [OF ky(2) kx(2) lt] have "2 ^ 24 * quantum y \<le> 2 ^ 23 * quantum x"
      by simp
    with 1 2 assms show False by simp
  qed
  then consider "kx = ky" | "kx < ky" by linarith
  then show ?thesis
  proof cases
    case 1
    with kx(2) ky(2) have eq: "quantum x = quantum y" by simp
    from assms quantum_pos [of y] have "x / quantum y \<le> y / quantum y"
      by (simp add: divide_right_mono)
    then have "rhe (x / quantum y) \<le> rhe (y / quantum y)"
      by (rule rhe_mono)
    then have "(of_int (rhe (x / quantum y)) :: rat) \<le> of_int (rhe (y / quantum y))"
      by simp
    then show ?thesis
      unfolding nearest32_def eq
      using quantum_pos [of y] by (simp add: mult_right_mono)
  next
    case 2
    with ky(1) have "kx < 253" by simp
    with kx(3) have "x < 2 ^ 24 * quantum x" by simp
    with quantum_pos [of x] have "x / quantum x \<le> of_int (2 ^ 24)"
      by (simp add: pos_divide_le_eq)
    then have "rhe (x / quantum x) \<le> rhe (of_int (2 ^ 24))"
      by (rule rhe_mono)
    then have "rhe (x / quantum x) \<le> 2 ^ 24"
      by (simp only: rhe_of_int)
    then have "(of_int (rhe (x / quantum x)) :: rat) \<le> of_int (2 ^ 24)"
      by (simp only: of_int_le_iff)
    then have "nearest32 x \<le> 2 ^ 24 * quantum x"
      unfolding nearest32_def using quantum_pos [of x] by (simp add: mult_right_mono)
    also from double [OF kx(2) ky(2) 2] have "\<dots> \<le> 2 ^ 23 * quantum y"
      by simp
    also have "\<dots> \<le> nearest32 y"
    proof -
      from 2 ky(4) have "2 ^ 23 * quantum y \<le> y" by simp
      with quantum_pos [of y] have "of_int (2 ^ 23) \<le> y / quantum y"
        by (simp add: pos_le_divide_eq)
      then have "rhe (of_int (2 ^ 23)) \<le> rhe (y / quantum y)"
        by (rule rhe_mono)
      then have "2 ^ 23 \<le> rhe (y / quantum y)"
        by (simp only: rhe_of_int)
      then have "(of_int (2 ^ 23) :: rat) \<le> of_int (rhe (y / quantum y))"
        by (simp only: of_int_le_iff)
      then show ?thesis
        unfolding nearest32_def using quantum_pos [of y] by (simp add: mult_right_mono)
    qed
    finally show ?thesis .
  qed
qed

lemma nearest32_exact:
  assumes "quantum a = u" and "a / u = of_int n"
  shows "nearest32 a = a"
proof -
  from quantum_pos [of a] assms(1) have "u \<noteq> 0" by auto
  with assms(2) have "of_int n * u = a"
    by (simp add: field_simps)
  with assms show ?thesis
    by (simp add: nearest32_def rhe_of_int)
qed

lemma nearest32_0: "nearest32 0 = 0"
  by (simp add: nearest32_def rhe_def)


lemma quantum_1: "quantum 1 = 1 / 2 ^ 23"
  by (simp add: quantum_def quantum_aux_numeral)

lemma quantum_100: "quantum 100 = 1 / 2 ^ 17"
  by (simp add: quantum_def quantum_aux_numeral)

lemma quantum_2_64: "quantum (2 ^ 64) = 2 ^ 41"
  by (simp add: quantum_def quantum_aux_numeral)

lemma nearest32_1: "nearest32 1 = 1"
  by (rule nearest32_exact [OF quantum_1, of "2 ^ 23"]) simp

lemma nearest32_100: "nearest32 100 = 100"
  by (rule nearest32_exact [OF quantum_100, of "100 * 2 ^ 17"]) simp

lemma nearest32_2_64: "nearest32 (2 ^ 64) = 2 ^ 64"
  by (rule nearest32_exact [OF quantum_2_64, of "2 ^ 23"]) simp

lemma round32_nonneg:
  assumes "0 \<le> a" and "quantum a = u" and "rhe (a / u) = n" and "of_int n * u = m"
    and "m < 2 ^ 128"
  shows "round32 a = Fin m"
  using assms by (simp add: round32_def nearest32_def Let_def)

lemma round32_bounded:
  assumes "0 \<le> x" and "x \<le> c" and "nearest32 c = c" and "c < 2 ^ 128"
  shows "\<exists>m. round32 x = Fin m \<and> 0 \<le> m \<and> m \<le> c \<and> m = nearest32 x"
proof -
  from nearest32_mono [OF assms(1)] have 0: "0 \<le> nearest32 x"
    by (simp add: nearest32_0)
  from nearest32_mono [OF assms(2)] assms(3) have c: "nearest32 x \<le> c"
    by simp
  with assms(4) have "\<not> 2 ^ 128 \<le> nearest32 x"
    by simp
  with assms(1) 0 c show ?thesis
    by (simp add: round32_def Let_def)
qed

lemma float32_of_uint_bounded:
  "\<exists>m. float32_of_uint n = Fin m \<and> 0 \<le> m \<and> m = nearest32 (of_nat (unat n))"
proof -
  have "unat n < 2 ^ 64"
    using unsigned_less [of n] by simp
  then have "(of_nat (unat n) :: rat) \<le> of_nat (2 ^ 64)"
    by (simp only: of_nat_le_iff)
  then have le: "(of_nat (unat n) :: rat) \<le> 2 ^ 64"
    by simp
  have "(0::rat) \<le> of_nat (unat n)"
    by (rule of_nat_0_le_iff)
  from round32_bounded [OF this le nearest32_2_64] show ?thesis
    unfolding float32_of_uint_def by auto
qed


section \<open>The sample states are states of the tracker\<close>

lemmas tracker_defs = handleConnSuccess_def handleConnError_def calcLongestUptime_def
  calcLongestDowntime_def newLongestTime_def Let_def Sub_def sat64_def minDurationC_def
  maxDurationC_def wrap64_def Add_def IsZero_def zeroTime_def

lemma downFor5_reached: "foldl track zeroTcping callsOfDownFor5 = downFor5"
  by (simp add: callsOfDownFor5_def downFor5_def tracker_defs zeroTcping_def
      zeroLongestTime_def)

lemma threeFailures_reached: "foldl track started callsOfThreeFailures = threeFailures"
  by (simp add: callsOfThreeFailures_def threeFailures_def started_def tracker_defs
      zeroTcping_def zeroLongestTime_def)

lemma upFor3_reached: "foldl track zeroTcping callsOfUpFor3 = upFor3"
  by (simp add: callsOfUpFor3_def upFor3_def tracker_defs zeroTcping_def zeroLongestTime_def)

section \<open>Accounting of elapsed time\<close>

lemma maxDuration_max: "maxDuration x y = max x y"
  by (simp add: maxDuration_def max_def)

text \<open>
  Claim C2. For every probe, the elapsed value that \<open>tcpProbe\<close> hands to the tracker is
  the maximum of the measured connect duration and the configured interval; a
  successful probe adds exactly this value to the accumulated uptime and a failed probe
  adds it to the accumulated downtime (the sums are \<open>int64\<close> sums); the value is never
  below the measured duration nor below the interval.
\<close>

theorem tcpProbe_elapsed_is_max:
  "tcpProbe t cs ce DialError =
     handleConnError t cs (max (Sub ce cs) (intervalBetweenProbes (userInput t)))
   \<and> tcpProbe t cs ce (DialOk a) =
     handleConnSuccess t a (nanoToMillisecond (Sub ce cs)) cs
       (max (Sub ce cs) (intervalBetweenProbes (userInput t)))
   \<and> totalDowntime (fst (tcpProbe t cs ce DialError)) =
     wrap64 (totalDowntime t + max (Sub ce cs) (intervalBetweenProbes (userInput t)))
   \<and> totalUptime (fst (tcpProbe t cs ce DialError)) = totalUptime t
   \<and> totalUptime (fst (tcpProbe t cs ce (DialOk a))) =
     wrap64 (totalUptime t + max (Sub ce cs) (intervalBetweenProbes (userInput t)))
   \<and> totalDowntime (fst (tcpProbe t cs ce (DialOk a))) = totalDowntime t
   \<and> Sub ce cs \<le> max (Sub ce cs) (intervalBetweenProbes (userInput t))
   \<and> intervalBetweenProbes (userInput t)
         \<le> max (Sub ce cs) (intervalBetweenProbes (userInput t))"
  by (simp add: tcpProbe_def maxDuration_max Let_def handleConnError_def
      handleConnSuccess_def calcLongestUptime_def calcLongestDowntime_def split_def)

text \<open>
  A probe that connects in 5 ms under a cadence of one second is accounted as one
  second of uptime; a probe that times out after 3 s is accounted as 3 s of downtime.
\<close>

theorem tcpProbe_elapsed_is_max_witness:
  "totalUptime (fst (tcpProbe
      (zeroTcping\<lparr>userInput := zeroUserInput\<lparr>intervalBetweenProbes := 1000000000\<rparr>\<rparr>)
      1000 5001000 (DialOk ''10.0.0.1:4242''))) = 1000000000
   \<and> totalDowntime (fst (tcpProbe
      (zeroTcping\<lparr>userInput := zeroUserInput\<lparr>intervalBetweenProbes := 1000000000\<rparr>\<rparr>)
      1000 3000001000 DialError)) = 3000000000"
proof -
  let ?t = "zeroTcping\<lparr>userInput := zeroUserInput\<lparr>intervalBetweenProbes := 1000000000\<rparr>\<rparr>"
  have up: "totalUptime (fst (tcpProbe ?t 1000 5001000 (DialOk ''10.0.0.1:4242''))) =
      wrap64 (totalUptime ?t + max (Sub 5001000 1000) (intervalBetweenProbes (userInput ?t)))"
    using tcpProbe_elapsed_is_max [of ?t 1000 5001000 "''10.0.0.1:4242''"] by blast
  have down: "totalDowntime (fst (tcpProbe ?t 1000 3000001000 DialError)) =
      wrap64 (totalDowntime ?t + max (Sub 3000001000 1000) (intervalBetweenProbes (userInput ?t)))"
    using tcpProbe_elapsed_is_max [of ?t 1000 3000001000 "''10.0.0.1:4242''"] by blast
  show ?thesis
    unfolding up down
    by (simp add: zeroTcping_def zeroUserInput_def Sub_def sat64_def minDurationC_def
        maxDurationC_def wrap64_def)
qed

section \<open>Recovery: a successful probe while the target is down\<close>

text \<open>
  Claim C1. When a probe succeeds while the tracker is in the Down state
  (\<open>destWasDown\<close>), the tracker goes Up; the downtime interval that is closed has the
  duration \<open>now - startOfDowntime\<close>; the longest-downtime record is replaced by that
  interval when the interval is set and either no record was stored before or its
  duration is \<open>\<ge>\<close> the recorded one, and is kept otherwise; a recovered event carrying
  that downtime is emitted first; both streak counters are reset, so that the success
  streak after (and emitted on) this probe is 1 and the failure streak is 0; the
  downtime start marker is cleared and \<open>startOfUptime\<close> is the time of this probe.
\<close>

theorem handleConnSuccess_recovers:
  assumes "destWasDown t"
  shows "destWasDown (fst (handleConnSuccess t src r now elapsed)) = False
    \<and> longestDowntime (fst (handleConnSuccess t src r now elapsed)) =
        (if \<not> IsZero (startOfDowntime t) \<and> Sub now (startOfDowntime t) \<noteq> 0
            \<and> (IsZero (endTime_of (longestDowntime t))
                 \<or> duration (longestDowntime t) \<le> Sub now (startOfDowntime t))
         then \<lparr>start = startOfDowntime t,
               endTime_of = Add (startOfDowntime t) (Sub now (startOfDowntime t)),
               duration = Sub now (startOfDowntime t)\<rparr>
         else longestDowntime t)
    \<and> snd (handleConnSuccess t src r now elapsed) =
        PrintTotalDownTime (Sub now (startOfDowntime t)) #
        (if showFailuresOnly (userInput t) then []
         else [PrintProbeSuccess src (userInput t) 1 r])
    \<and> ongoingSuccessfulProbes (fst (handleConnSuccess t src r now elapsed)) = 1
    \<and> ongoingUnsuccessfulProbes (fst (handleConnSuccess t src r now elapsed)) = 0
    \<and> startOfDowntime (fst (handleConnSuccess t src r now elapsed)) = zeroTime
    \<and> startOfUptime (fst (handleConnSuccess t src r now elapsed)) = now"
  using assms
  by (simp add: handleConnSuccess_def calcLongestDowntime_def newLongestTime_def Let_def)

text \<open>
  Scenario B: five failed probes, one second apart, are followed by a success at
  instant 7000001000: the recovered event carries 5 s, which becomes the longest
  downtime, and the success streak is 1.
\<close>

theorem handleConnSuccess_recovers_witness:
  "destWasDown downFor5
   \<and> destWasDown (fst (handleConnSuccess downFor5 ''10.0.0.1:4242'' (Fin 3) 7000001000 1000000000)) = False
   \<and> longestDowntime (fst (handleConnSuccess downFor5 ''10.0.0.1:4242'' (Fin 3) 7000001000 1000000000))
       = \<lparr>start = 2000001000, endTime_of = 7000001000, duration = 5000000000\<rparr>
   \<and> snd (handleConnSuccess downFor5 ''10.0.0.1:4242'' (Fin 3) 7000001000 1000000000)
       = [PrintTotalDownTime 5000000000,
          PrintProbeSuccess ''10.0.0.1:4242'' zeroUserInput 1 (Fin 3)]
   \<and> ongoingSuccessfulProbes (fst (handleConnSuccess downFor5 ''10.0.0.1:4242'' (Fin 3) 7000001000 1000000000)) = 1
   \<and> ongoingUnsuccessfulProbes (fst (handleConnSuccess downFor5 ''10.0.0.1:4242'' (Fin 3) 7000001000 1000000000)) = 0
   \<and> startOfDowntime (fst (handleConnSuccess downFor5 ''10.0.0.1:4242'' (Fin 3) 7000001000 1000000000)) = 0
   \<and> startOfUptime (fst (handleConnSuccess downFor5 ''10.0.0.1:4242'' (Fin 3) 7000001000 1000000000)) = 7000001000"
proof -
  have d: "destWasDown downFor5"
    by (simp add: downFor5_def zeroTcping_def)
  have s: "Sub 7000001000 (startOfDowntime downFor5) = 5000000000"
    by (simp add: downFor5_def zeroTcping_def Sub_def sat64_def minDurationC_def maxDurationC_def)
  show ?thesis
    using handleConnSuccess_recovers [OF d, of "''10.0.0.1:4242''" "Fin 3" 7000001000 1000000000]
    unfolding s
    by (simp add: downFor5_def zeroTcping_def zeroUserInput_def zeroLongestTime_def
        IsZero_def zeroTime_def Add_def)
qed

section \<open>Retrying the hostname lookup\<close>

text \<open>
  Claim C6. \<open>retryResolveHostname\<close> does nothing unless the consecutive-failure counter
  has reached the configured threshold. When it is due it announces the retry and
  resolves the hostname again; if the resolver ends the process, so does the retry;
  otherwise the resolved address becomes the target, the consecutive-failure counter
  is zero, the retry counter is one more, and one record (the new address, the current
  time) is appended to the address-change sequence exactly when the sequence has a
  last entry whose address differs from the new one. The sequence is otherwise
  unchanged, so it only grows, and only on a change of address.
\<close>

theorem retryResolveHostname_when_due:
  "(\<not> retryHostnameLookupAfter (userInput t) \<le> ongoingUnsuccessfulProbes t \<longrightarrow>
      retryResolveHostname r now t = (Inr t, []))
   \<and> (retryHostnameLookupAfter (userInput t) \<le> ongoingUnsuccessfulProbes t \<longrightarrow>
      (\<forall>e out. resolveHostname r t = (Inl e, out) \<longrightarrow>
         retryResolveHostname r now t =
           (Inl e, PrintRetryingToResolve (hostname (userInput t)) # out))
      \<and> (\<forall>a out. resolveHostname r t = (Inr a, out) \<longrightarrow>
         retryResolveHostname r now t =
           (Inr (t\<lparr>userInput := (userInput t)\<lparr>ip := a\<rparr>,
                   ongoingUnsuccessfulProbes := 0,
                   retriedHostnameLookups := retriedHostnameLookups t + 1,
                   hostnameChanges :=
                     (if hostnameChanges t \<noteq> []
                         \<and> change_Addr (last (hostnameChanges t)) \<noteq> a
                      then hostnameChanges t @ [\<lparr>change_Addr = a, change_When = now\<rparr>]
                      else hostnameChanges t)\<rparr>),
            PrintRetryingToResolve (hostname (userInput t)) # out)))
   \<and> (\<forall>t' out. retryResolveHostname r now t = (Inr t', out) \<longrightarrow>
         hostnameChanges t' = hostnameChanges t
         \<or> (hostnameChanges t \<noteq> []
            \<and> change_Addr (last (hostnameChanges t)) \<noteq> ip (userInput t')
            \<and> hostnameChanges t' = hostnameChanges t @
                 [\<lparr>change_Addr = ip (userInput t'), change_When = now\<rparr>]))"
  by (auto simp: retryResolveHostname_def Let_def split: prod.splits sum.splits if_splits)

text \<open>
  Scenario D: after three failures the name resolves to another address; the sequence
  then has exactly two entries, the second with the new address and the time of the
  retry. Below the threshold nothing happens.
\<close>

theorem retryResolveHostname_when_due_witness:
  "retryHostnameLookupAfter (userInput threeFailures) \<le> ongoingUnsuccessfulProbes threeFailures
   \<and> resolveHostname dnsMoved threeFailures = (Inr (IPv4 0xC0000202), [])
   \<and> (\<exists>t'. retryResolveHostname dnsMoved 3000001000 threeFailures =
              (Inr t', [PrintRetryingToResolve ''example.org''])
          \<and> ip (userInput t') = IPv4 0xC0000202
          \<and> ongoingUnsuccessfulProbes t' = 0
          \<and> retriedHostnameLookups t' = 1
          \<and> hostnameChanges t' =
               [\<lparr>change_Addr = IPv4 0xC0000201, change_When = 500\<rparr>,
                \<lparr>change_Addr = IPv4 0xC0000202, change_When = 3000001000\<rparr>])
   \<and> \<not> retryHostnameLookupAfter (userInput (threeFailures\<lparr>ongoingUnsuccessfulProbes := 2\<rparr>))
          \<le> ongoingUnsuccessfulProbes (threeFailures\<lparr>ongoingUnsuccessfulProbes := 2\<rparr>)
   \<and> retryResolveHostname dnsMoved 3000001000 (threeFailures\<lparr>ongoingUnsuccessfulProbes := 2\<rparr>)
        = (Inr (threeFailures\<lparr>ongoingUnsuccessfulProbes := 2\<rparr>), [])"
proof -
  have due: "retryHostnameLookupAfter (userInput threeFailures)
               \<le> ongoingUnsuccessfulProbes threeFailures"
    by (simp add: threeFailures_def started_def zeroTcping_def zeroUserInput_def)
  have res: "resolveHostname dnsMoved threeFailures = (Inr (IPv4 0xC0000202), [])"
    by (simp add: resolveHostname_def selectResolvedIP_def pickAddr_def dnsMoved_def
        threeFailures_def started_def zeroTcping_def zeroUserInput_def)
  have notdue: "\<not> retryHostnameLookupAfter (userInput (threeFailures\<lparr>ongoingUnsuccessfulProbes := 2\<rparr>))
          \<le> ongoingUnsuccessfulProbes (threeFailures\<lparr>ongoingUnsuccessfulProbes := 2\<rparr>)"
    by (simp add: threeFailures_def started_def zeroTcping_def zeroUserInput_def)
  from retryResolveHostname_when_due [of threeFailures dnsMoved 3000001000] due res
  have 1: "retryResolveHostname dnsMoved 3000001000 threeFailures =
      (Inr (threeFailures\<lparr>userInput := (userInput threeFailures)\<lparr>ip := IPv4 0xC0000202\<rparr>,
              ongoingUnsuccessfulProbes := 0,
              retriedHostnameLookups := retriedHostnameLookups threeFailures + 1,
              hostnameChanges :=
                (if hostnameChanges threeFailures \<noteq> []
                    \<and> change_Addr (last (hostnameChanges threeFailures)) \<noteq> IPv4 0xC0000202
                 then hostnameChanges threeFailures @
                      [\<lparr>change_Addr = IPv4 0xC0000202, change_When = 3000001000\<rparr>]
                 else hostnameChanges threeFailures)\<rparr>),
       PrintRetryingToResolve (hostname (userInput threeFailures)) # [])"
    by blast
  from retryResolveHostname_when_due
         [of "threeFailures\<lparr>ongoingUnsuccessfulProbes := 2\<rparr>" dnsMoved 3000001000] notdue
  have 2: "retryResolveHostname dnsMoved 3000001000 (threeFailures\<lparr>ongoingUnsuccessfulProbes := 2\<rparr>)
        = (Inr (threeFailures\<lparr>ongoingUnsuccessfulProbes := 2\<rparr>), [])"
    by blast
  show ?thesis
    unfolding 1 2 using due res notdue
    by (simp add: threeFailures_def started_def zeroTcping_def zeroUserInput_def)
qed

section \<open>Failure of the hostname lookup\<close>

text \<open>
  Claim C7, as the spec states it, has the failure of a lookup in mid-session reported
  as an informational or error event. The resolver reports nothing there: with three
  failed probes behind it and the DNS down, \<open>resolveHostname\<close> returns the known
  address and emits no event, and the events of the retry are those of a retry whose
  lookup succeeds.
\<close>

theorem resolveHostname_midsession_failure_silent:
  "parseAddr dnsDown (hostname (userInput threeFailures)) = None
   \<and> lookupNetIP dnsDown (hostname (userInput threeFailures)) = None
   \<and> totalUnsuccessfulProbes threeFailures = 3
   \<and> resolveHostname dnsDown threeFailures = (Inr (ip (userInput threeFailures)), [])
   \<and> snd (retryResolveHostname dnsDown 3000001000 threeFailures)
       = [PrintRetryingToResolve ''example.org'']
   \<and> snd (retryResolveHostname dnsMoved 3000001000 threeFailures)
       = [PrintRetryingToResolve ''example.org'']"
  by (simp add: retryResolveHostname_def resolveHostname_def selectResolvedIP_def
      pickAddr_def dnsDown_def dnsMoved_def threeFailures_def started_def zeroTcping_def
      zeroUserInput_def Let_def)

text \<open>
  Claim C7, amended. When the hostname is not an address literal and its lookup fails:
  if no probe has completed yet, the failure is fatal (the error is reported and the
  process exits with status 1); if at least one probe has completed, the resolver
  returns the previously known address and emits no event, and a due retry keeps the
  session going on that address, its only event being the announcement of the retry.
\<close>

theorem resolveHostname_lookup_failure:
  assumes "parseAddr r (hostname (userInput t)) = None"
    and "lookupNetIP r (hostname (userInput t)) = None"
  shows "(totalSuccessfulProbes t = 0 \<and> totalUnsuccessfulProbes t = 0 \<longrightarrow>
            resolveHostname r t =
              (Inl (OsExit 1), [PrintError (CannotResolve (hostname (userInput t)))]))
    \<and> (totalSuccessfulProbes t \<noteq> 0 \<or> totalUnsuccessfulProbes t \<noteq> 0 \<longrightarrow>
            resolveHostname r t = (Inr (ip (userInput t)), [])
          \<and> (retryHostnameLookupAfter (userInput t) \<le> ongoingUnsuccessfulProbes t \<longrightarrow>
               (\<exists>t'. retryResolveHostname r now t =
                         (Inr t', [PrintRetryingToResolve (hostname (userInput t))])
                     \<and> ip (userInput t') = ip (userInput t))))
    \<and> (fst (resolveHostname r t) = Inl (OsExit 1)
          \<longleftrightarrow> totalSuccessfulProbes t = 0 \<and> totalUnsuccessfulProbes t = 0)"
  using assms
  by (auto simp: resolveHostname_def retryResolveHostname_def Let_def)

text \<open>
  With the DNS down, the lookup of \<open>example.org\<close> is fatal before the first probe and
  returns the known address after three failed probes.
\<close>

theorem resolveHostname_lookup_failure_witness:
  "parseAddr dnsDown (hostname (userInput threeFailures)) = None
   \<and> lookupNetIP dnsDown (hostname (userInput threeFailures)) = None
   \<and> resolveHostname dnsDown threeFailures = (Inr (IPv4 0xC0000201), [])
   \<and> resolveHostname dnsDown
        (threeFailures\<lparr>totalUnsuccessfulProbes := 0, ongoingUnsuccessfulProbes := 0\<rparr>)
       = (Inl (OsExit 1), [PrintError (CannotResolve ''example.org'')])"
proof -
  let ?fresh = "threeFailures\<lparr>totalUnsuccessfulProbes := 0, ongoingUnsuccessfulProbes := 0\<rparr>"
  have p: "parseAddr dnsDown (hostname (userInput threeFailures)) = None"
    and l: "lookupNetIP dnsDown (hostname (userInput threeFailures)) = None"
    and p': "parseAddr dnsDown (hostname (userInput ?fresh)) = None"
    and l': "lookupNetIP dnsDown (hostname (userInput ?fresh)) = None"
    by (simp_all add: dnsDown_def)
  have n: "totalUnsuccessfulProbes threeFailures \<noteq> 0"
    and z: "totalSuccessfulProbes ?fresh = 0 \<and> totalUnsuccessfulProbes ?fresh = 0"
    by (simp_all add: threeFailures_def started_def zeroTcping_def)
  from resolveHostname_lookup_failure [OF p l] n
  have 1: "resolveHostname dnsDown threeFailures = (Inr (ip (userInput threeFailures)), [])"
    by blast
  from resolveHostname_lookup_failure [OF p' l'] z
  have 2: "resolveHostname dnsDown ?fresh =
             (Inl (OsExit 1), [PrintError (CannotResolve (hostname (userInput ?fresh)))])"
    by blast
  show ?thesis
    unfolding 1 2 using p l
    by (simp add: threeFailures_def started_def zeroTcping_def zeroUserInput_def)
qed

section \<open>RTT samples and successful probes\<close>

lemma handleConnSuccess_rtt:
  "rtt (fst (handleConnSuccess t src r now elapsed)) = rtt t @ [r]"
  by (simp add: handleConnSuccess_def calcLongestDowntime_def Let_def)

lemma handleConnSuccess_totalSuccessfulProbes:
  "totalSuccessfulProbes (fst (handleConnSuccess t src r now elapsed)) =
     totalSuccessfulProbes t + 1"
  by (simp add: handleConnSuccess_def calcLongestDowntime_def Let_def)

lemma handleConnError_rtt: "rtt (fst (handleConnError t now elapsed)) = rtt t"
  by (simp add: handleConnError_def calcLongestUptime_def Let_def)

lemma handleConnError_totalSuccessfulProbes:
  "totalSuccessfulProbes (fst (handleConnError t now elapsed)) = totalSuccessfulProbes t"
  by (simp add: handleConnError_def calcLongestUptime_def Let_def)

lemma track_samples:
  assumes "word_of_nat (length (rtt t)) = totalSuccessfulProbes t"
  shows "word_of_nat (length (rtt (track t c))) = totalSuccessfulProbes (track t c)"
proof (cases c)
  case (ConnSuccess src r now elapsed)
  then show ?thesis
    using assms
    by (simp add: handleConnSuccess_rtt handleConnSuccess_totalSuccessfulProbes)
next
  case (ConnError now elapsed)
  then show ?thesis
    using assms by (simp add: handleConnError_rtt handleConnError_totalSuccessfulProbes)
qed

lemma foldl_track_samples:
  "word_of_nat (length (rtt t)) = totalSuccessfulProbes t \<Longrightarrow>
   word_of_nat (length (rtt (foldl track t calls))) =
     totalSuccessfulProbes (foldl track t calls)"
proof (induction calls arbitrary: t)
  case Nil
  then show ?case by simp
next
  case (Cons c calls)
  from Cons.prems have "word_of_nat (length (rtt (track t c))) = totalSuccessfulProbes (track t c)"
    by (rule track_samples)
  then show ?case
    using Cons.IH [of "track t c"] by simp
qed

text \<open>
  Claim C10. \<open>handleConnSuccess\<close> appends exactly one RTT sample and adds one to
  \<open>totalSuccessfulProbes\<close>; \<open>handleConnError\<close> changes neither. Hence in every state
  reached from a state without samples and without successful probes through calls of
  the two entry points, \<open>totalSuccessfulProbes\<close> is the number of stored samples (as
  a \<open>uint\<close>, and as a number whenever the number of samples fits a \<open>uint\<close>).
\<close>

theorem rtt_samples_equal_successful_probes:
  "rtt (fst (handleConnSuccess t src r now elapsed)) = rtt t @ [r]
   \<and> totalSuccessfulProbes (fst (handleConnSuccess t src r now elapsed)) =
       totalSuccessfulProbes t + 1
   \<and> rtt (fst (handleConnError t now elapsed)) = rtt t
   \<and> totalSuccessfulProbes (fst (handleConnError t now elapsed)) = totalSuccessfulProbes t
   \<and> (rtt t = [] \<and> totalSuccessfulProbes t = 0 \<longrightarrow>
        totalSuccessfulProbes (foldl track t calls) =
          word_of_nat (length (rtt (foldl track t calls)))
        \<and> (length (rtt (foldl track t calls)) < 2 ^ 64 \<longrightarrow>
             unat (totalSuccessfulProbes (foldl track t calls)) =
               length (rtt (foldl track t calls))))"
proof -
  have "totalSuccessfulProbes (foldl track t calls) =
          word_of_nat (length (rtt (foldl track t calls)))
        \<and> (length (rtt (foldl track t calls)) < 2 ^ 64 \<longrightarrow>
             unat (totalSuccessfulProbes (foldl track t calls)) =
               length (rtt (foldl track t calls)))"
    if "rtt t = []" "totalSuccessfulProbes t = 0"
  proof -
    from that have "word_of_nat (length (rtt t)) = totalSuccessfulProbes t"
      by simp
    then have eq: "word_of_nat (length (rtt (foldl track t calls))) =
        totalSuccessfulProbes (foldl track t calls)"
      by (rule foldl_track_samples)
    have "unat (word_of_nat (length (rtt (foldl track t calls))) :: uint) =
        length (rtt (foldl track t calls))"
      if "length (rtt (foldl track t calls)) < 2 ^ 64"
      using that by (simp add: unat_of_nat)
    with eq show ?thesis by simp
  qed
  then have reached: "rtt t = [] \<and> totalSuccessfulProbes t = 0 \<longrightarrow>
        totalSuccessfulProbes (foldl track t calls) =
          word_of_nat (length (rtt (foldl track t calls)))
        \<and> (length (rtt (foldl track t calls)) < 2 ^ 64 \<longrightarrow>
             unat (totalSuccessfulProbes (foldl track t calls)) =
               length (rtt (foldl track t calls)))"
    by blast
  show ?thesis
    by (intro conjI handleConnSuccess_rtt handleConnSuccess_totalSuccessfulProbes
        handleConnError_rtt handleConnError_totalSuccessfulProbes reached)
qed

text \<open>Scenario A: three successes, and a failure in between, leave three samples.\<close>

theorem rtt_samples_equal_successful_probes_witness:
  "rtt zeroTcping = [] \<and> totalSuccessfulProbes zeroTcping = 0
   \<and> rtt (foldl track zeroTcping
        [ConnSuccess ''s'' (Fin 10) 1000 1000000000, ConnError 2000 1000000000,
         ConnSuccess ''s'' (Fin 20) 3000 1000000000,
         ConnSuccess ''s'' (Fin 30) 4000 1000000000]) = [Fin 10, Fin 20, Fin 30]
   \<and> totalSuccessfulProbes (foldl track zeroTcping
        [ConnSuccess ''s'' (Fin 10) 1000 1000000000, ConnError 2000 1000000000,
         ConnSuccess ''s'' (Fin 20) 3000 1000000000,
         ConnSuccess ''s'' (Fin 30) 4000 1000000000]) = 3"
proof -
  let ?calls = "[ConnSuccess ''s'' (Fin 10) 1000 1000000000, ConnError 2000 1000000000,
         ConnSuccess ''s'' (Fin 20) 3000 1000000000,
         ConnSuccess ''s'' (Fin 30) 4000 1000000000]"
  have z: "rtt zeroTcping = [] \<and> totalSuccessfulProbes zeroTcping = 0"
    by (simp add: zeroTcping_def)
  have r: "rtt (foldl track zeroTcping ?calls) = [Fin 10, Fin 20, Fin 30]"
    by (simp add: handleConnSuccess_rtt handleConnError_rtt zeroTcping_def)
  from rtt_samples_equal_successful_probes [of zeroTcping _ _ _ _ ?calls] z
  have "totalSuccessfulProbes (foldl track zeroTcping ?calls) =
          word_of_nat (length (rtt (foldl track zeroTcping ?calls)))"
    by blast
  then have "totalSuccessfulProbes (foldl track zeroTcping ?calls) = 3"
    unfolding r by simp
  with z r show ?thesis by blast
qed

section \<open>The statistics snapshot\<close>

text \<open>
  Claim C8, as the spec states it, has a mid-run snapshot leave the tracker unchanged
  and the longest-interval records untouched. \<open>printStats\<close> works on the tracker
  itself: a snapshot taken three seconds into the first uptime stores that open
  interval, ended at the time of the snapshot, as the longest uptime.
\<close>

theorem printStats_midrun_changes_longestUptime:
  "longestUptime upFor3 = \<lparr>start = 0, endTime_of = 0, duration = 0\<rparr>
   \<and> longestUptime (fst (printStats 3000001000 upFor3))
       = \<lparr>start = 1000, endTime_of = 3000001000, duration = 3000000000\<rparr>
   \<and> fst (printStats 3000001000 upFor3) \<noteq> upFor3"
proof -
  have 1: "longestUptime upFor3 = \<lparr>start = 0, endTime_of = 0, duration = 0\<rparr>"
    by (simp add: upFor3_def zeroTcping_def zeroLongestTime_def zeroTime_def)
  have 2: "longestUptime (fst (printStats 3000001000 upFor3))
       = \<lparr>start = 1000, endTime_of = 3000001000, duration = 3000000000\<rparr>"
    by (simp add: printStats_def calcLongestUptime_def newLongestTime_def Let_def Since_def
        Sub_def sat64_def minDurationC_def maxDurationC_def Add_def IsZero_def zeroTime_def
        upFor3_def zeroTcping_def zeroLongestTime_def)
  from 1 2 have "longestUptime (fst (printStats 3000001000 upFor3)) \<noteq> longestUptime upFor3"
    by simp
  then have "fst (printStats 3000001000 upFor3) \<noteq> upFor3"
    by auto
  with 1 2 show ?thesis by blast
qed

lemma calcLongestUptime_eq:
  "calcLongestUptime t d =
     t\<lparr>longestUptime :=
         (if \<not> IsZero (startOfUptime t) \<and> d \<noteq> 0
             \<and> (IsZero (endTime_of (longestUptime t)) \<or> duration (longestUptime t) \<le> d)
          then newLongestTime (startOfUptime t) d else longestUptime t)\<rparr>"
  by (simp add: calcLongestUptime_def)

lemma calcLongestDowntime_eq:
  "calcLongestDowntime t d =
     t\<lparr>longestDowntime :=
         (if \<not> IsZero (startOfDowntime t) \<and> d \<noteq> 0
             \<and> (IsZero (endTime_of (longestDowntime t)) \<or> duration (longestDowntime t) \<le> d)
          then newLongestTime (startOfDowntime t) d else longestDowntime t)\<rparr>"
  by (simp add: calcLongestDowntime_def)

lemma printStats_eq:
  "printStats now t =
     (let t' = t\<lparr>longestUptime :=
                   (if \<not> destWasDown t \<and> \<not> IsZero (startOfUptime t)
                       \<and> Since now (startOfUptime t) \<noteq> 0
                       \<and> (IsZero (endTime_of (longestUptime t))
                            \<or> duration (longestUptime t) \<le> Since now (startOfUptime t))
                    then newLongestTime (startOfUptime t) (Since now (startOfUptime t))
                    else longestUptime t),
                 longestDowntime :=
                   (if destWasDown t \<and> \<not> IsZero (startOfDowntime t)
                       \<and> Since now (startOfDowntime t) \<noteq> 0
                       \<and> (IsZero (endTime_of (longestDowntime t))
                            \<or> duration (longestDowntime t) \<le> Since now (startOfDowntime t))
                    then newLongestTime (startOfDowntime t) (Since now (startOfDowntime t))
                    else longestDowntime t),
                 rttResults := calcMinAvgMaxRttTime (rtt t)\<rparr>
      in (t', [PrintStatistics t']))"
  by (simp add: printStats_def calcLongestUptime_eq calcLongestDowntime_eq Let_def)

lemma printStats_idem: "printStats now (fst (printStats now t)) = printStats now t"
  by (auto simp: printStats_eq Let_def newLongestTime_def)

text \<open>
  Claim C8, amended. \<open>printStats\<close>, in a mid-run snapshot and at shutdown alike,
  recomputes the RTT summary into \<open>rttResults\<close> and closes the interval that is open
  with \<open>now\<close> as its end: in the Up state that interval replaces the longest-uptime
  record, in the Down state the longest-downtime record, when it is set and no record
  was stored before or its duration is \<open>\<ge>\<close> the recorded one. No other field of the
  tracker changes, the printed snapshot is the updated tracker, and a second call at the
  same instant changes nothing more. \<open>shutdown\<close> is the same call after the end time
  has been stamped.
\<close>

theorem printStats_effect:
  "printStats now t =
     (let t' = t\<lparr>longestUptime :=
                   (if \<not> destWasDown t \<and> \<not> IsZero (startOfUptime t)
                       \<and> Since now (startOfUptime t) \<noteq> 0
                       \<and> (IsZero (endTime_of (longestUptime t))
                            \<or> duration (longestUptime t) \<le> Since now (startOfUptime t))
                    then newLongestTime (startOfUptime t) (Since now (startOfUptime t))
                    else longestUptime t),
                 longestDowntime :=
                   (if destWasDown t \<and> \<not> IsZero (startOfDowntime t)
                       \<and> Since now (startOfDowntime t) \<noteq> 0
                       \<and> (IsZero (endTime_of (longestDowntime t))
                            \<or> duration (longestDowntime t) \<le> Since now (startOfDowntime t))
                    then newLongestTime (startOfDowntime t) (Since now (startOfDowntime t))
                    else longestDowntime t),
                 rttResults := calcMinAvgMaxRttTime (rtt t)\<rparr>
      in (t', [PrintStatistics t']))
   \<and> printStats now (fst (printStats now t)) = printStats now t
   \<and> shutdown now0 now t = printStats now (t\<lparr>endTime := now0\<rparr>)"
  by (intro conjI printStats_eq printStats_idem) (simp add: shutdown_def)

text \<open>
  The snapshot taken at instant 3000001000 of the target that is up since instant 1000
  changes the longest uptime and the RTT summary, and nothing else.
\<close>

theorem printStats_effect_witness:
  "fst (printStats 3000001000 upFor3) =
     upFor3\<lparr>longestUptime := \<lparr>start = 1000, endTime_of = 3000001000, duration = 3000000000\<rparr>,
            rttResults := calcMinAvgMaxRttTime [Fin 10, Fin 20, Fin 30]\<rparr>
   \<and> snd (printStats 3000001000 upFor3) = [PrintStatistics (fst (printStats 3000001000 upFor3))]"
proof -
  have s: "Since 3000001000 (startOfUptime upFor3) = 3000000000"
    by (simp add: Since_def Sub_def sat64_def minDurationC_def maxDurationC_def upFor3_def
        zeroTcping_def)
  show ?thesis
    using printStats_effect [of 3000001000 upFor3 0]
    unfolding s
    by (simp add: Let_def newLongestTime_def Add_def IsZero_def zeroTime_def upFor3_def
        zeroTcping_def zeroLongestTime_def)
qed

section \<open>Streak counters\<close>

text \<open>
  Claim C9, as the spec states it, lets a streak counter decrease only at a transition
  between Up and Down. A due hostname retry resets the failure streak while the target
  stays down: after three failures with a threshold of three, the retry leaves the
  tracker in the Down state with a failure streak of zero.
\<close>

theorem retry_resets_failure_streak_without_transition:
  "destWasDown threeFailures
   \<and> ongoingUnsuccessfulProbes threeFailures = 3
   \<and> fst (retryResolveHostname dnsDown 3000001000 threeFailures)
       = Inr (threeFailures\<lparr>ongoingUnsuccessfulProbes := 0, retriedHostnameLookups := 1\<rparr>)
   \<and> destWasDown (threeFailures\<lparr>ongoingUnsuccessfulProbes := 0, retriedHostnameLookups := 1\<rparr>)
   \<and> ongoingUnsuccessfulProbes
        (threeFailures\<lparr>ongoingUnsuccessfulProbes := 0, retriedHostnameLookups := 1\<rparr>) = 0"
  by (simp add: retryResolveHostname_def resolveHostname_def dnsDown_def threeFailures_def started_def
      zeroTcping_def zeroUserInput_def Let_def)

lemma word_less_inc: "w \<noteq> - 1 \<Longrightarrow> w < w + 1" for w :: uint
  using inc_less_eq_self_iff_eq [of w] by (simp add: not_le [symmetric])

text \<open>
  Claim C9, amended. Both streak counters are reset exactly by a success in the Down
  state (the transition from Down to Up), after which the success streak is 1 and the
  failure streak 0. Every other success adds one to the success streak and keeps the
  failure streak; every failure, at the transition from Up to Down as well, adds one to
  the failure streak and keeps the success streak; a snapshot keeps both. The one other
  change is that of a due hostname retry, which sets the failure streak to 0 and keeps
  the success streak and the state. Short of the largest \<open>uint\<close>, adding one is an
  increase.
\<close>

theorem streak_counters:
  "(destWasDown t \<longrightarrow>
      ongoingSuccessfulProbes (fst (handleConnSuccess t src r now elapsed)) = 1
      \<and> ongoingUnsuccessfulProbes (fst (handleConnSuccess t src r now elapsed)) = 0)
   \<and> (\<not> destWasDown t \<longrightarrow>
      ongoingSuccessfulProbes (fst (handleConnSuccess t src r now elapsed)) =
        ongoingSuccessfulProbes t + 1
      \<and> ongoingUnsuccessfulProbes (fst (handleConnSuccess t src r now elapsed)) =
        ongoingUnsuccessfulProbes t
      \<and> (ongoingSuccessfulProbes t \<noteq> - 1 \<longrightarrow>
           ongoingSuccessfulProbes t
             < ongoingSuccessfulProbes (fst (handleConnSuccess t src r now elapsed))))
   \<and> ongoingUnsuccessfulProbes (fst (handleConnError t now elapsed)) =
        ongoingUnsuccessfulProbes t + 1
   \<and> ongoingSuccessfulProbes (fst (handleConnError t now elapsed)) =
        ongoingSuccessfulProbes t
   \<and> (ongoingUnsuccessfulProbes t \<noteq> - 1 \<longrightarrow>
        ongoingUnsuccessfulProbes t
          < ongoingUnsuccessfulProbes (fst (handleConnError t now elapsed)))
   \<and> ongoingSuccessfulProbes (fst (printStats now t)) = ongoingSuccessfulProbes t
   \<and> ongoingUnsuccessfulProbes (fst (printStats now t)) = ongoingUnsuccessfulProbes t
   \<and> (\<forall>t' out. retryResolveHostname rs now t = (Inr t', out) \<longrightarrow>
        ongoingSuccessfulProbes t' = ongoingSuccessfulProbes t
        \<and> destWasDown t' = destWasDown t
        \<and> ongoingUnsuccessfulProbes t' =
            (if retryHostnameLookupAfter (userInput t) \<le> ongoingUnsuccessfulProbes t
             then 0 else ongoingUnsuccessfulProbes t))"
proof -
  have retry: "\<forall>t' out. retryResolveHostname rs now t = (Inr t', out) \<longrightarrow>
        ongoingSuccessfulProbes t' = ongoingSuccessfulProbes t
        \<and> destWasDown t' = destWasDown t
        \<and> ongoingUnsuccessfulProbes t' =
            (if retryHostnameLookupAfter (userInput t) \<le> ongoingUnsuccessfulProbes t
             then 0 else ongoingUnsuccessfulProbes t)"
    by (auto simp: retryResolveHostname_def Let_def split: prod.splits sum.splits if_splits)
  have success: "ongoingSuccessfulProbes (fst (handleConnSuccess t src r now elapsed)) =
        (if destWasDown t then 1 else ongoingSuccessfulProbes t + 1)"
    "ongoingUnsuccessfulProbes (fst (handleConnSuccess t src r now elapsed)) =
        (if destWasDown t then 0 else ongoingUnsuccessfulProbes t)"
    by (simp_all add: handleConnSuccess_def calcLongestDowntime_def Let_def)
  have failure: "ongoingUnsuccessfulProbes (fst (handleConnError t now elapsed)) =
        ongoingUnsuccessfulProbes t + 1"
    "ongoingSuccessfulProbes (fst (handleConnError t now elapsed)) =
        ongoingSuccessfulProbes t"
    by (simp_all add: handleConnError_def calcLongestUptime_def Let_def)
  have stats: "ongoingSuccessfulProbes (fst (printStats now t)) = ongoingSuccessfulProbes t"
    "ongoingUnsuccessfulProbes (fst (printStats now t)) = ongoingUnsuccessfulProbes t"
    by (simp_all add: printStats_def calcLongestUptime_def calcLongestDowntime_def Let_def)
  show ?thesis
    unfolding success failure stats
    using retry word_less_inc [of "ongoingSuccessfulProbes t"]
      word_less_inc [of "ongoingUnsuccessfulProbes t"]
    by simp
qed

text \<open>
  Scenario B: after five failures a success recovers, with a success streak of 1; a
  sixth failure instead makes the failure streak 6 and keeps the success streak of 2
  that was reached before the target went down.
\<close>

theorem streak_counters_witness:
  "destWasDown downFor5
   \<and> ongoingSuccessfulProbes
        (fst (handleConnSuccess downFor5 ''s'' (Fin 3) 7000001000 1000000000)) = 1
   \<and> ongoingUnsuccessfulProbes
        (fst (handleConnSuccess downFor5 ''s'' (Fin 3) 7000001000 1000000000)) = 0
   \<and> ongoingUnsuccessfulProbes (fst (handleConnError downFor5 7000001000 1000000000)) = 6
   \<and> ongoingSuccessfulProbes (fst (handleConnError downFor5 7000001000 1000000000)) = 2"
proof -
  have d: "destWasDown downFor5"
    by (simp add: downFor5_def zeroTcping_def)
  have v: "ongoingUnsuccessfulProbes downFor5 = 5" "ongoingSuccessfulProbes downFor5 = 2"
    by (simp_all add: downFor5_def zeroTcping_def)
  from streak_counters [of downFor5 "''s''" "Fin 3" 7000001000 1000000000] d v
  show ?thesis by simp
qed

section \<open>Longest uptime and longest downtime\<close>

lemma Sub_nonneg: "u \<le> t \<Longrightarrow> 0 \<le> Sub t u"
  by (simp add: Sub_def sat64_def minDurationC_def maxDurationC_def)

lemma calcLongestUptime_step:
  assumes "recordsUnsetOrWritten t" and "zeroTime \<le> startOfUptime t" and "0 \<le> d"
  shows "duration (longestUptime t) \<le> duration (longestUptime (calcLongestUptime t d))
    \<and> longestDowntime (calcLongestUptime t d) = longestDowntime t
    \<and> recordsUnsetOrWritten (calcLongestUptime t d)"
  using assms
  by (auto simp: calcLongestUptime_eq recordsUnsetOrWritten_def newLongestTime_def Add_def
      IsZero_def zeroTime_def split: if_splits)

lemma calcLongestDowntime_step:
  assumes "recordsUnsetOrWritten t" and "zeroTime \<le> startOfDowntime t" and "0 \<le> d"
  shows "duration (longestDowntime t) \<le> duration (longestDowntime (calcLongestDowntime t d))
    \<and> longestUptime (calcLongestDowntime t d) = longestUptime t
    \<and> recordsUnsetOrWritten (calcLongestDowntime t d)"
  using assms
  by (auto simp: calcLongestDowntime_eq recordsUnsetOrWritten_def newLongestTime_def Add_def
      IsZero_def zeroTime_def split: if_splits)

lemma handleConnError_longest:
  assumes "recordsUnsetOrWritten t" and "markersBefore t now"
  shows "duration (longestUptime t) \<le> duration (longestUptime (fst (handleConnError t now e)))
    \<and> duration (longestDowntime t) \<le> duration (longestDowntime (fst (handleConnError t now e)))
    \<and> recordsUnsetOrWritten (fst (handleConnError t now e))
    \<and> (\<forall>now'. now \<le> now' \<longrightarrow> markersBefore (fst (handleConnError t now e)) now')"
proof (cases "destWasDown t")
  case True
  then show ?thesis
    using assms
    by (auto simp: handleConnError_def Let_def recordsUnsetOrWritten_def markersBefore_def)
next
  case False
  let ?a = "t\<lparr>startOfDowntime := now\<rparr>"
  let ?d = "Sub now (startOfUptime t)"
  have a: "recordsUnsetOrWritten ?a" "zeroTime \<le> startOfUptime ?a"
    using assms by (simp_all add: recordsUnsetOrWritten_def markersBefore_def)
  have d: "0 \<le> ?d"
    using assms by (simp add: Sub_nonneg markersBefore_def)
  have fields: "startOfDowntime (calcLongestUptime ?a ?d) = now"
    by (simp add: calcLongestUptime_eq)
  have res: "fst (handleConnError t now e) =
      (calcLongestUptime ?a ?d)\<lparr>startOfUptime := zeroTime, destWasDown := True,
        totalDowntime := wrap64 (totalDowntime t + e), lastUnsuccessfulProbe := now,
        totalUnsuccessfulProbes := totalUnsuccessfulProbes t + 1,
        ongoingUnsuccessfulProbes := ongoingUnsuccessfulProbes t + 1\<rparr>"
    using False by (simp add: handleConnError_def Let_def calcLongestUptime_eq)
  from calcLongestUptime_step [OF a d] fields assms show ?thesis
    unfolding res
    by (auto simp: recordsUnsetOrWritten_def markersBefore_def zeroTime_def)
qed

lemma handleConnSuccess_longest:
  assumes "recordsUnsetOrWritten t" and "markersBefore t now"
  shows "duration (longestUptime t)
        \<le> duration (longestUptime (fst (handleConnSuccess t src r now e)))
    \<and> duration (longestDowntime t)
        \<le> duration (longestDowntime (fst (handleConnSuccess t src r now e)))
    \<and> recordsUnsetOrWritten (fst (handleConnSuccess t src r now e))
    \<and> (\<forall>now'. now \<le> now' \<longrightarrow> markersBefore (fst (handleConnSuccess t src r now e)) now')"
proof (cases "destWasDown t")
  case False
  then show ?thesis
    using assms
    by (auto simp: handleConnSuccess_def Let_def recordsUnsetOrWritten_def markersBefore_def
        IsZero_def)
next
  case True
  let ?a = "t\<lparr>startOfUptime := now\<rparr>"
  let ?d = "Sub now (startOfDowntime t)"
  have a: "recordsUnsetOrWritten ?a" "zeroTime \<le> startOfDowntime ?a"
    using assms by (simp_all add: recordsUnsetOrWritten_def markersBefore_def)
  have d: "0 \<le> ?d"
    using assms by (simp add: Sub_nonneg markersBefore_def)
  have now: "zeroTime \<le> now"
    using assms by (simp add: markersBefore_def)
  have res: "longestUptime (fst (handleConnSuccess t src r now e)) =
        longestUptime (calcLongestDowntime ?a ?d)"
      "longestDowntime (fst (handleConnSuccess t src r now e)) =
        longestDowntime (calcLongestDowntime ?a ?d)"
      "startOfUptime (fst (handleConnSuccess t src r now e)) = now"
      "startOfDowntime (fst (handleConnSuccess t src r now e)) = zeroTime"
    using True by (simp_all add: handleConnSuccess_def Let_def calcLongestDowntime_eq IsZero_def)
  from calcLongestDowntime_step [OF a d]
  have 1: "duration (longestDowntime t)
        \<le> duration (longestDowntime (calcLongestDowntime ?a ?d))"
    and 2: "longestUptime (calcLongestDowntime ?a ?d) = longestUptime t"
    and 3: "recordsUnsetOrWritten (calcLongestDowntime ?a ?d)"
    by simp_all
  from 1 3 now show ?thesis
    by (auto simp: recordsUnsetOrWritten_def markersBefore_def res 2 split: if_splits)
qed

lemma printStats_longest:
  assumes "recordsUnsetOrWritten t" and "markersBefore t now"
  shows "duration (longestUptime t) \<le> duration (longestUptime (fst (printStats now t)))
    \<and> duration (longestDowntime t) \<le> duration (longestDowntime (fst (printStats now t)))
    \<and> recordsUnsetOrWritten (fst (printStats now t))
    \<and> (\<forall>now'. now \<le> now' \<longrightarrow> markersBefore (fst (printStats now t)) now')"
proof -
  have d: "0 \<le> Since now (startOfUptime t)" "0 \<le> Since now (startOfDowntime t)"
    using assms by (simp_all add: Since_def Sub_nonneg markersBefore_def)
  have m: "zeroTime \<le> startOfUptime t" "zeroTime \<le> startOfDowntime t"
    using assms by (simp_all add: markersBefore_def)
  have res: "longestUptime (fst (printStats now t)) =
        (if destWasDown t then longestUptime t
         else longestUptime (calcLongestUptime t (Since now (startOfUptime t))))"
      "longestDowntime (fst (printStats now t)) =
        (if destWasDown t
         then longestDowntime (calcLongestDowntime t (Since now (startOfDowntime t)))
         else longestDowntime t)"
      "startOfUptime (fst (printStats now t)) = startOfUptime t"
      "startOfDowntime (fst (printStats now t)) = startOfDowntime t"
    by (simp_all add: printStats_def Let_def calcLongestUptime_eq calcLongestDowntime_eq)
  from calcLongestUptime_step [OF assms(1) m(1) d(1)]
    calcLongestDowntime_step [OF assms(1) m(2) d(2)] assms
  show ?thesis
    by (auto simp: recordsUnsetOrWritten_def markersBefore_def res)
qed

lemma step_longest:
  assumes "recordsUnsetOrWritten t" and "markersBefore t (stepTime s)"
  shows "duration (longestUptime t) \<le> duration (longestUptime (step t s))
    \<and> duration (longestDowntime t) \<le> duration (longestDowntime (step t s))
    \<and> recordsUnsetOrWritten (step t s)
    \<and> (\<forall>now'. stepTime s \<le> now' \<longrightarrow> markersBefore (step t s) now')"
proof (cases s)
  case (Snapshot now)
  then show ?thesis
    using printStats_longest [of t now] assms by simp
next
  case (Tracked c)
  show ?thesis
  proof (cases c)
    case (ConnSuccess src r now e)
    with Tracked show ?thesis
      using handleConnSuccess_longest [of t now src r e] assms by simp
  next
    case (ConnError now e)
    with Tracked show ?thesis
      using handleConnError_longest [of t now e] assms by simp
  qed
qed

lemma session_longest:
  assumes "recordsUnsetOrWritten t"
    and "sorted (map stepTime steps)"
    and "\<forall>s \<in> set steps. markersBefore t (stepTime s)"
  shows "duration (longestUptime t) \<le> duration (longestUptime (foldl step t steps))
    \<and> duration (longestDowntime t) \<le> duration (longestDowntime (foldl step t steps))"
  using assms
proof (induction steps arbitrary: t)
  case Nil
  then show ?case by simp
next
  case (Cons s steps)
  from Cons.prems have m: "markersBefore t (stepTime s)"
    by simp
  note st = step_longest [OF Cons.prems(1) m]
  from Cons.prems(2) have later: "\<forall>s' \<in> set steps. stepTime s \<le> stepTime s'"
    and sorted: "sorted (map stepTime steps)"
    by simp_all
  from st later have "\<forall>s' \<in> set steps. markersBefore (step t s) (stepTime s')"
    by blast
  with Cons.IH [of "step t s"] st sorted
  have "duration (longestUptime (step t s))
          \<le> duration (longestUptime (foldl step (step t s) steps))
      \<and> duration (longestDowntime (step t s))
          \<le> duration (longestDowntime (foldl step (step t s) steps))"
    by blast
  with st show ?case
    by auto
qed

lemma session_invariant:
  assumes "recordsUnsetOrWritten t"
    and "sorted (map stepTime steps)"
    and "\<forall>s \<in> set steps. markersBefore t (stepTime s)"
  shows "recordsUnsetOrWritten (foldl step t steps)
    \<and> (\<forall>now'. (\<forall>s \<in> set steps. stepTime s \<le> now') \<and> markersBefore t now' \<longrightarrow>
          markersBefore (foldl step t steps) now')"
  using assms
proof (induction steps arbitrary: t)
  case Nil
  then show ?case by simp
next
  case (Cons s steps)
  from Cons.prems have m: "markersBefore t (stepTime s)"
    by simp
  note st = step_longest [OF Cons.prems(1) m]
  from Cons.prems(2) have later: "\<forall>s' \<in> set steps. stepTime s \<le> stepTime s'"
    and sorted: "sorted (map stepTime steps)"
    by simp_all
  from st later have "\<forall>s' \<in> set steps. markersBefore (step t s) (stepTime s')"
    by blast
  with Cons.IH [of "step t s"] st sorted
  have ih: "recordsUnsetOrWritten (foldl step (step t s) steps)
    \<and> (\<forall>now'. (\<forall>s \<in> set steps. stepTime s \<le> now') \<and> markersBefore (step t s) now' \<longrightarrow>
          markersBefore (foldl step (step t s) steps) now')"
    by blast
  show ?case
  proof (intro conjI allI impI)
    show "recordsUnsetOrWritten (foldl step t (s # steps))"
      using ih by simp
  next
    fix now'
    assume a: "(\<forall>s' \<in> set (s # steps). stepTime s' \<le> now') \<and> markersBefore t now'"
    then have "markersBefore (step t s) now'"
      using st by simp
    with a ih show "markersBefore (foldl step t (s # steps)) now'"
      by simp
  qed
qed

text \<open>
  Claim C3. \<open>calcLongestUptime\<close> and \<open>calcLongestDowntime\<close> change nothing but their
  record. An interval of duration zero, or one that was never opened, never changes
  the record. In a session (records unset or written, the interval not negative) the
  record is replaced by the interval exactly when the interval is set and its duration
  is \<open>\<ge>\<close> the recorded one, so an interval as long as the recorded one replaces it.
  Across every session that starts from a fresh tracker and whose probes and snapshots
  read a clock that does not run backwards, the durations of both records never
  decrease from one point of the session to a later one.
\<close>

theorem longest_records_nondecreasing:
  "calcLongestUptime t d =
     t\<lparr>longestUptime := longestUptime (calcLongestUptime t d)\<rparr>
   \<and> calcLongestDowntime t d =
     t\<lparr>longestDowntime := longestDowntime (calcLongestDowntime t d)\<rparr>
   \<and> (d = 0 \<or> IsZero (startOfUptime t) \<longrightarrow> calcLongestUptime t d = t)
   \<and> (d = 0 \<or> IsZero (startOfDowntime t) \<longrightarrow> calcLongestDowntime t d = t)
   \<and> (recordsUnsetOrWritten t \<and> 0 \<le> d \<longrightarrow>
        longestUptime (calcLongestUptime t d) =
          (if \<not> IsZero (startOfUptime t) \<and> d \<noteq> 0 \<and> duration (longestUptime t) \<le> d
           then \<lparr>start = startOfUptime t, endTime_of = Add (startOfUptime t) d, duration = d\<rparr>
           else longestUptime t)
        \<and> longestDowntime (calcLongestDowntime t d) =
          (if \<not> IsZero (startOfDowntime t) \<and> d \<noteq> 0 \<and> duration (longestDowntime t) \<le> d
           then \<lparr>start = startOfDowntime t, endTime_of = Add (startOfDowntime t) d,
                 duration = d\<rparr>
           else longestDowntime t))
   \<and> (startOfUptime t = zeroTime \<and> startOfDowntime t = zeroTime
        \<and> longestUptime t = zeroLongestTime \<and> longestDowntime t = zeroLongestTime
        \<and> sorted (map stepTime (before @ after))
        \<and> (\<forall>s \<in> set (before @ after). zeroTime \<le> stepTime s) \<longrightarrow>
        duration (longestUptime (foldl step t before))
          \<le> duration (longestUptime (foldl step t (before @ after)))
        \<and> duration (longestDowntime (foldl step t before))
          \<le> duration (longestDowntime (foldl step t (before @ after))))"
proof -
  have frame: "calcLongestUptime t d = t\<lparr>longestUptime := longestUptime (calcLongestUptime t d)\<rparr>"
    "calcLongestDowntime t d = t\<lparr>longestDowntime := longestDowntime (calcLongestDowntime t d)\<rparr>"
    by (simp_all add: calcLongestUptime_def calcLongestDowntime_def)
  have unset: "d = 0 \<or> IsZero (startOfUptime t) \<longrightarrow> calcLongestUptime t d = t"
    "d = 0 \<or> IsZero (startOfDowntime t) \<longrightarrow> calcLongestDowntime t d = t"
    by (auto simp: calcLongestUptime_def calcLongestDowntime_def)
  have rule: "recordsUnsetOrWritten t \<and> 0 \<le> d \<longrightarrow>
        longestUptime (calcLongestUptime t d) =
          (if \<not> IsZero (startOfUptime t) \<and> d \<noteq> 0 \<and> duration (longestUptime t) \<le> d
           then \<lparr>start = startOfUptime t, endTime_of = Add (startOfUptime t) d, duration = d\<rparr>
           else longestUptime t)
        \<and> longestDowntime (calcLongestDowntime t d) =
          (if \<not> IsZero (startOfDowntime t) \<and> d \<noteq> 0 \<and> duration (longestDowntime t) \<le> d
           then \<lparr>start = startOfDowntime t, endTime_of = Add (startOfDowntime t) d,
                 duration = d\<rparr>
           else longestDowntime t)"
    by (auto simp: calcLongestUptime_eq calcLongestDowntime_eq newLongestTime_def
        recordsUnsetOrWritten_def split: if_splits)
  have session: "duration (longestUptime (foldl step t before))
          \<le> duration (longestUptime (foldl step t (before @ after)))
        \<and> duration (longestDowntime (foldl step t before))
          \<le> duration (longestDowntime (foldl step t (before @ after)))"
    if fresh: "startOfUptime t = zeroTime" "startOfDowntime t = zeroTime"
        "longestUptime t = zeroLongestTime" "longestDowntime t = zeroLongestTime"
      and sorted: "sorted (map stepTime (before @ after))"
      and pos: "\<forall>s \<in> set (before @ after). zeroTime \<le> stepTime s"
  proof -
    have r: "recordsUnsetOrWritten t"
      using fresh by (simp add: recordsUnsetOrWritten_def zeroLongestTime_def)
    have m: "markersBefore t now" if "zeroTime \<le> now" for now
      using fresh that by (simp add: markersBefore_def)
    from sorted have sb: "sorted (map stepTime before)" and sa: "sorted (map stepTime after)"
      and le: "\<forall>x \<in> set before. \<forall>y \<in> set after. stepTime x \<le> stepTime y"
      by (auto simp: sorted_append)
    from pos m have mb: "\<forall>s \<in> set before. markersBefore t (stepTime s)"
      by simp
    note inv = session_invariant [OF r sb mb]
    have "\<forall>s \<in> set after. markersBefore (foldl step t before) (stepTime s)"
    proof
      fix s assume s: "s \<in> set after"
      with le have "\<forall>x \<in> set before. stepTime x \<le> stepTime s"
        by blast
      moreover from s pos m have "markersBefore t (stepTime s)"
        by simp
      ultimately show "markersBefore (foldl step t before) (stepTime s)"
        using inv by blast
    qed
    with session_longest [of "foldl step t before" after] inv sa
    show ?thesis by simp
  qed
  from frame unset rule session show ?thesis
    by blast
qed

text \<open>
  Scenario E: of two uptime intervals of equal duration, the later one is retained as
  the longest; the recorded duration does not decrease.
\<close>

theorem longest_records_nondecreasing_witness:
  "sorted (map stepTime (firstUptime @ secondUptime))
   \<and> longestUptime (foldl step zeroTcping firstUptime)
       = \<lparr>start = 1000, endTime_of = 3000, duration = 2000\<rparr>
   \<and> longestUptime (foldl step zeroTcping (firstUptime @ secondUptime))
       = \<lparr>start = 4000, endTime_of = 6000, duration = 2000\<rparr>
   \<and> duration (longestUptime (foldl step zeroTcping firstUptime))
       \<le> duration (longestUptime (foldl step zeroTcping (firstUptime @ secondUptime)))
   \<and> duration (longestDowntime (foldl step zeroTcping firstUptime))
       \<le> duration (longestDowntime (foldl step zeroTcping (firstUptime @ secondUptime)))"
proof -
  have fresh: "startOfUptime zeroTcping = zeroTime \<and> startOfDowntime zeroTcping = zeroTime
      \<and> longestUptime zeroTcping = zeroLongestTime
      \<and> longestDowntime zeroTcping = zeroLongestTime"
    by (simp add: zeroTcping_def)
  have sorted: "sorted (map stepTime (firstUptime @ secondUptime))"
    by (simp add: firstUptime_def secondUptime_def)
  have pos: "\<forall>s \<in> set (firstUptime @ secondUptime). zeroTime \<le> stepTime s"
    by (simp add: firstUptime_def secondUptime_def zeroTime_def)
  have sub: "Sub 3000 1000 = 2000" "Sub 4000 3000 = 1000" "Sub 6000 4000 = 2000"
    by (simp_all add: Sub_def sat64_def minDurationC_def maxDurationC_def)
  have 1: "longestUptime (foldl step zeroTcping firstUptime)
       = \<lparr>start = 1000, endTime_of = 3000, duration = 2000\<rparr>"
    by (simp add: firstUptime_def handleConnSuccess_def handleConnError_def
        calcLongestUptime_def calcLongestDowntime_def newLongestTime_def Let_def sub Add_def
        IsZero_def zeroTime_def zeroTcping_def zeroLongestTime_def zeroUserInput_def)
  have 2: "longestUptime (foldl step zeroTcping (firstUptime @ secondUptime))
       = \<lparr>start = 4000, endTime_of = 6000, duration = 2000\<rparr>"
    by (simp add: firstUptime_def secondUptime_def handleConnSuccess_def handleConnError_def
        calcLongestUptime_def calcLongestDowntime_def newLongestTime_def Let_def sub Add_def
        IsZero_def zeroTime_def zeroTcping_def zeroLongestTime_def zeroUserInput_def)
  from longest_records_nondecreasing [of zeroTcping 0 firstUptime secondUptime]
    fresh sorted pos
  have "duration (longestUptime (foldl step zeroTcping firstUptime))
       \<le> duration (longestUptime (foldl step zeroTcping (firstUptime @ secondUptime)))
   \<and> duration (longestDowntime (foldl step zeroTcping firstUptime))
       \<le> duration (longestDowntime (foldl step zeroTcping (firstUptime @ secondUptime)))"
    by blast
  with sorted 1 2 show ?thesis
    by blast
qed

section \<open>Packet loss\<close>

text \<open>
  Claim C4. While the two probe counters have not wrapped around, the packet loss that
  the statistics report computes is \<open>0\<close>, and not a NaN, when no probe was made;
  otherwise it is the float32 value of \<open>failures / (successes + failures) * 100\<close>;
  in both cases it is a finite number between 0 and 100.
\<close>

theorem packetLoss_range:
  assumes "unat (totalSuccessfulProbes t) + unat (totalUnsuccessfulProbes t) < 2 ^ 64"
  shows "(totalSuccessfulProbes t + totalUnsuccessfulProbes t = 0 \<longrightarrow> packetLoss t = Fin 0)
    \<and> (totalSuccessfulProbes t + totalUnsuccessfulProbes t \<noteq> 0 \<longrightarrow>
         packetLoss t =
           fmul (fdiv (float32_of_uint (totalUnsuccessfulProbes t))
                      (float32_of_uint (totalSuccessfulProbes t + totalUnsuccessfulProbes t)))
                (Fin 100))
    \<and> (\<exists>p. packetLoss t = Fin p \<and> 0 \<le> p \<and> p \<le> 100)"
proof -
  let ?s = "totalSuccessfulProbes t" and ?f = "totalUnsuccessfulProbes t"
  from assms have sum: "unat (?s + ?f) = unat ?s + unat ?f"
    using unat_add_lem [of ?s ?f] by simp
  from float32_of_uint_bounded [of ?f] obtain a where
    a: "float32_of_uint ?f = Fin a" "0 \<le> a" "a = nearest32 (of_nat (unat ?f))"
    by blast
  from float32_of_uint_bounded [of "?s + ?f"] obtain b where
    b: "float32_of_uint (?s + ?f) = Fin b" "0 \<le> b" "b = nearest32 (of_nat (unat (?s + ?f)))"
    by blast
  have "unat ?f \<le> unat ?s + unat ?f"
    by simp
  then have "(of_nat (unat ?f) :: rat) \<le> of_nat (unat ?s + unat ?f)"
    by (simp only: of_nat_le_iff)
  then have ab: "a \<le> b"
    unfolding a(3) b(3) sum by (rule nearest32_mono)
  show ?thesis
  proof (cases "?s + ?f = 0")
    case True
    then have "unat (?s + ?f) = 0" by simp
    with sum have "unat ?f = 0" by simp
    with a(3) b(3) \<open>unat (?s + ?f) = 0\<close> have "a = 0" "b = 0"
      by (simp_all add: nearest32_0)
    with a(1) b(1) True show ?thesis
      by (simp add: packetLoss_def Let_def IsNaN_def)
  next
    case False
    then have "unat (?s + ?f) \<noteq> 0"
      by (simp add: unat_eq_0)
    then have "(1::rat) \<le> of_nat (unat (?s + ?f))"
      by (metis One_nat_def Suc_leI neq0_conv of_nat_1 of_nat_le_iff)
    from nearest32_mono [OF this] b(3) have "1 \<le> b"
      by (simp add: nearest32_1)
    then have bpos: "0 < b" by simp
    with a(2) ab have q: "0 \<le> a / b" "a / b \<le> 1"
      by simp_all
    from round32_bounded [OF q nearest32_1] obtain q' where
      q': "round32 (a / b) = Fin q'" "0 \<le> q'" "q' \<le> 1"
      by auto
    then have "0 \<le> q' * 100" "q' * 100 \<le> 100"
      by simp_all
    from round32_bounded [OF this nearest32_100] obtain p where
      p: "round32 (q' * 100) = Fin p" "0 \<le> p" "p \<le> 100"
      by auto
    from bpos a(1) b(1) q'(1) p(1)
    have loss: "fmul (fdiv (float32_of_uint ?f) (float32_of_uint (?s + ?f))) (Fin 100) = Fin p"
      by simp
    with p False show ?thesis
      by (simp add: packetLoss_def Let_def IsNaN_def)
  qed
qed

lemma round32_1: "round32 1 = Fin 1"
  by (rule round32_nonneg [where u = "1 / 2 ^ 23" and n = "2 ^ 23"])
    (simp_all add: quantum_1 rhe_def)

lemma round32_4: "round32 4 = Fin 4"
  by (rule round32_nonneg [where u = "1 / 2 ^ 21" and n = "2 ^ 23"])
    (simp_all add: quantum_def quantum_aux_numeral rhe_def)

lemma round32_quarter: "round32 (1 / 4) = Fin (1 / 4)"
  by (rule round32_nonneg [where u = "1 / 2 ^ 25" and n = "2 ^ 23"])
    (simp_all add: quantum_def quantum_aux_numeral rhe_def)

lemma round32_25: "round32 25 = Fin 25"
  by (rule round32_nonneg [where u = "1 / 2 ^ 19" and n = "25 * 2 ^ 19"])
    (simp_all add: quantum_def quantum_aux_numeral rhe_def)

text \<open>One failure in four probes is a loss of 25 percent; no probe is a loss of 0.\<close>

theorem packetLoss_range_witness:
  "packetLoss (zeroTcping\<lparr>totalSuccessfulProbes := 3, totalUnsuccessfulProbes := 1\<rparr>) = Fin 25
   \<and> packetLoss zeroTcping = Fin 0"
proof -
  let ?t = "zeroTcping\<lparr>totalSuccessfulProbes := 3, totalUnsuccessfulProbes := 1\<rparr>"
  have nw: "unat (totalSuccessfulProbes ?t) + unat (totalUnsuccessfulProbes ?t) < 2 ^ 64"
    by simp
  have nz: "totalSuccessfulProbes ?t + totalUnsuccessfulProbes ?t \<noteq> 0"
    by simp
  from packetLoss_range [OF nw] nz
  have "packetLoss ?t =
      fmul (fdiv (float32_of_uint (totalUnsuccessfulProbes ?t))
                 (float32_of_uint (totalSuccessfulProbes ?t + totalUnsuccessfulProbes ?t)))
           (Fin 100)"
    by blast
  also have "\<dots> = Fin 25"
    by (simp add: float32_of_uint_def round32_1 round32_4 round32_quarter round32_25)
  finally have 1: "packetLoss ?t = Fin 25" .
  have nw0: "unat (totalSuccessfulProbes zeroTcping)
      + unat (totalUnsuccessfulProbes zeroTcping) < 2 ^ 64"
    and z: "totalSuccessfulProbes zeroTcping + totalUnsuccessfulProbes zeroTcping = 0"
    by (simp_all add: zeroTcping_def)
  from packetLoss_range [OF nw0] z have 2: "packetLoss zeroTcping = Fin 0"
    by blast
  from 1 2 show ?thesis
    by blast
qed

section \<open>The RTT summary\<close>








lemma fadd_Fin_eval:
  assumes "0 \<le> a + b" and "quantum (a + b) = u" and "rhe ((a + b) / u) = n"
    and "of_int n * u = m" and "m < 2 ^ 128"
  shows "fadd (Fin a) (Fin b) = Fin m"
  using round32_nonneg [OF assms] by simp



lemmas float_eval = quantum_def quantum_aux_numeral

















text \<open>
  Nor is the average tied to the samples by a rounding error: a float32 sum of samples
  of 1 ms stops growing when it reaches 16777216.
\<close>

lemma rhe_tie_below:
  assumes "x = of_int n + 1 / 2" and "even n"
  shows "rhe x = n"
proof -
  from assms have "\<lfloor>x\<rfloor> = n"
    by (intro floor_unique) simp_all
  with assms show ?thesis
    by (simp add: rhe_def Let_def)
qed

lemma sum_stalls: "fadd (Fin 16777216) (Fin 1) = Fin 16777216"
  by (rule fadd_Fin_eval [where u = "2" and n = "8388608", OF _ _ rhe_tie_below])
    (simp_all add: float_eval)









end
